theory Spec2Isabelle
  imports Main "HOL-Library.Word" "HOL-Library.Signed_Division"
begin

unbundle bit_operations_syntax

section \<open>Constants of ds3231.cpp\<close>

text \<open>Register addresses (the source's \<^verbatim>\<open>static const uint32_t\<close> values). They are only
  ever handed to the bus, which indexes the chip's register file with them.\<close>

definition DS3231_RTC_ADDRESS :: nat where
  "DS3231_RTC_ADDRESS = 0x00"

definition DS3231_ALARM_1_ADDRESS :: nat where
  "DS3231_ALARM_1_ADDRESS = 0x07"

definition DS3231_ALARM_2_ADDRESS :: nat where
  "DS3231_ALARM_2_ADDRESS = 0x0B"

definition DS3231_CONTROL_ADDRESS :: nat where
  "DS3231_CONTROL_ADDRESS = 0x0E"

definition DS3231_STATUS_ADDRESS :: nat where
  "DS3231_STATUS_ADDRESS = 0x0F"

text \<open>Alarm type bit masks.\<close>

definition DS3231_ALARM_TYPE_M1 :: "32 word" where
  "DS3231_ALARM_TYPE_M1 = 0x01"

definition DS3231_ALARM_TYPE_M2 :: "32 word" where
  "DS3231_ALARM_TYPE_M2 = 0x02"

definition DS3231_ALARM_TYPE_M3 :: "32 word" where
  "DS3231_ALARM_TYPE_M3 = 0x04"

definition DS3231_ALARM_TYPE_M4 :: "32 word" where
  "DS3231_ALARM_TYPE_M4 = 0x08"

definition DS3231_ALARM_TYPE_DAY_MODE :: "32 word" where
  "DS3231_ALARM_TYPE_DAY_MODE = 0x10"

definition DS3231_ALARM_TYPE_INTERUPT :: "32 word" where
  "DS3231_ALARM_TYPE_INTERUPT = 0x40"

definition DS3231_ALARM_TYPE_ALARM_NUMBER :: "32 word" where
  "DS3231_ALARM_TYPE_ALARM_NUMBER = 0x80"

section \<open>The register image\<close>

text \<open>
  Each register group of the source is a union of a byte array \<^verbatim>\<open>raw\<close> and a struct of
  bit-fields \<^verbatim>\<open>reg\<close>. The image of a group is its byte array, byte \<open>i\<close> of the array being
  \<open>raw i\<close>; a bit-field is a run of bits of one byte, read and assigned by shift and mask.
  Only indices below the array's size are ever touched.
\<close>

type_synonym raw = "nat \<Rightarrow> 8 word"

datatype field = Field nat nat nat

fun f_byte :: "field \<Rightarrow> nat" where
  "f_byte (Field b p w) = b"

fun f_pos :: "field \<Rightarrow> nat" where
  "f_pos (Field b p w) = p"

fun f_width :: "field \<Rightarrow> nat" where
  "f_width (Field b p w) = w"

text \<open>Reading an unsigned bit-field: the field's bits, shifted down.\<close>

definition reg_get :: "field \<Rightarrow> raw \<Rightarrow> 8 word" where
  "reg_get f r = take_bit (f_width f) (drop_bit (f_pos f) (r (f_byte f)))"

text \<open>Assigning to an unsigned bit-field of width \<open>w\<close>: the value is reduced modulo \<open>2 ^ w\<close>
  (C++ conversion to an unsigned bit-field) and replaces the field's bits; every other bit
  of the byte stays.\<close>

definition reg_set :: "field \<Rightarrow> 8 word \<Rightarrow> raw \<Rightarrow> raw" where
  "reg_set f v r = r(f_byte f :=
     (r (f_byte f) AND NOT (push_bit (f_pos f) (mask (f_width f))))
       OR push_bit (f_pos f) (take_bit (f_width f) v))"

text \<open>A \<^verbatim>\<open>bool\<close> bit-field of width 1: reading gives the bit; an assigned integer is first
  converted to \<^verbatim>\<open>bool\<close> (non-zero is true) by the caller.\<close>

definition flag_get :: "field \<Rightarrow> raw \<Rightarrow> bool" where
  "flag_get f r = (reg_get f r \<noteq> 0)"

definition flag_set :: "field \<Rightarrow> bool \<Rightarrow> raw \<Rightarrow> raw" where
  "flag_set f b r = reg_set f (of_bool b) r"

subsection \<open>Layout\<close>

text \<open>
  Modelled from the spec: the bit-field declarations and array sizes of ds3231.h, which is
  not among the source files. The groups' sizes are those of the spec's register address
  space (time 7 bytes, alarm 1 4 bytes, alarm 2 3 bytes, control 1, status 1); the fields
  are those of the spec's data model, in the chip's register order, units digit in the
  low four bits and tens digit above it, the match bits M1 to M4 in bit 7 of the alarm
  bytes, the day-mode flag in bit 6 of the alarm's day byte. Match bits, the day-mode flag
  and the control and status flags are one-bit flags (\<^verbatim>\<open>bool\<close>).
\<close>

definition rtc_size :: nat where "rtc_size = 7"
definition alrm_1_size :: nat where "alrm_1_size = 4"
definition alrm_2_size :: nat where "alrm_2_size = 3"
definition ctrl_size :: nat where "ctrl_size = 1"
definition stat_size :: nat where "stat_size = 1"

definition rtc_second :: field where "rtc_second = Field 0 0 4"
definition rtc_second_10 :: field where "rtc_second_10 = Field 0 4 3"
definition rtc_minute :: field where "rtc_minute = Field 1 0 4"
definition rtc_minute_10 :: field where "rtc_minute_10 = Field 1 4 3"
definition rtc_hour :: field where "rtc_hour = Field 2 0 4"
definition rtc_hour_10 :: field where "rtc_hour_10 = Field 2 4 2"
definition rtc_weekday :: field where "rtc_weekday = Field 3 0 3"
definition rtc_day :: field where "rtc_day = Field 4 0 4"
definition rtc_day_10 :: field where "rtc_day_10 = Field 4 4 2"
definition rtc_month :: field where "rtc_month = Field 5 0 4"
definition rtc_month_10 :: field where "rtc_month_10 = Field 5 4 1"
definition rtc_year :: field where "rtc_year = Field 6 0 4"
definition rtc_year_10 :: field where "rtc_year_10 = Field 6 4 4"

definition alrm_1_second :: field where "alrm_1_second = Field 0 0 4"
definition alrm_1_second_10 :: field where "alrm_1_second_10 = Field 0 4 3"
definition alrm_1_m1 :: field where "alrm_1_m1 = Field 0 7 1"
definition alrm_1_minute :: field where "alrm_1_minute = Field 1 0 4"
definition alrm_1_minute_10 :: field where "alrm_1_minute_10 = Field 1 4 3"
definition alrm_1_m2 :: field where "alrm_1_m2 = Field 1 7 1"
definition alrm_1_hour :: field where "alrm_1_hour = Field 2 0 4"
definition alrm_1_hour_10 :: field where "alrm_1_hour_10 = Field 2 4 2"
definition alrm_1_m3 :: field where "alrm_1_m3 = Field 2 7 1"
definition alrm_1_day :: field where "alrm_1_day = Field 3 0 4"
definition alrm_1_day_10 :: field where "alrm_1_day_10 = Field 3 4 2"
definition alrm_1_day_mode :: field where "alrm_1_day_mode = Field 3 6 1"
definition alrm_1_m4 :: field where "alrm_1_m4 = Field 3 7 1"

definition alrm_2_minute :: field where "alrm_2_minute = Field 0 0 4"
definition alrm_2_minute_10 :: field where "alrm_2_minute_10 = Field 0 4 3"
definition alrm_2_m2 :: field where "alrm_2_m2 = Field 0 7 1"
definition alrm_2_hour :: field where "alrm_2_hour = Field 1 0 4"
definition alrm_2_hour_10 :: field where "alrm_2_hour_10 = Field 1 4 2"
definition alrm_2_m3 :: field where "alrm_2_m3 = Field 1 7 1"
definition alrm_2_day :: field where "alrm_2_day = Field 2 0 4"
definition alrm_2_day_10 :: field where "alrm_2_day_10 = Field 2 4 2"
definition alrm_2_day_mode :: field where "alrm_2_day_mode = Field 2 6 1"
definition alrm_2_m4 :: field where "alrm_2_m4 = Field 2 7 1"

definition ctrl_alrm_1_int :: field where "ctrl_alrm_1_int = Field 0 0 1"
definition ctrl_alrm_2_int :: field where "ctrl_alrm_2_int = Field 0 1 1"
definition ctrl_int_ctrl :: field where "ctrl_int_ctrl = Field 0 2 1"
definition ctrl_rs :: field where "ctrl_rs = Field 0 3 2"
definition ctrl_conv_tmp :: field where "ctrl_conv_tmp = Field 0 5 1"
definition ctrl_bat_sqw :: field where "ctrl_bat_sqw = Field 0 6 1"
definition ctrl_osc_dis :: field where "ctrl_osc_dis = Field 0 7 1"

definition stat_alrm_1_act :: field where "stat_alrm_1_act = Field 0 0 1"
definition stat_alrm_2_act :: field where "stat_alrm_2_act = Field 0 1 1"
definition stat_busy :: field where "stat_busy = Field 0 2 1"
definition stat_en32khz :: field where "stat_en32khz = Field 0 3 1"
definition stat_osc_stop :: field where "stat_osc_stop = Field 0 7 1"

section \<open>The component and its collaborators\<close>

text \<open>A calendar time of the host (\<^verbatim>\<open>time::ESPTime\<close>): the members the driver touches.\<close>

record ESPTime =
  second :: "8 word"
  minute :: "8 word"
  hour :: "8 word"
  day_of_week :: "8 word"
  day_of_month :: "8 word"
  day_of_year :: "16 word"
  month :: "8 word"
  year :: "16 word"
  timestamp :: int

datatype log_level = LOGE | LOGW | LOGCONFIG | LOGD

text \<open>One bus transaction: a read of \<open>len\<close> bytes at a register address, or a write of the
  given bytes at a register address, and whether it succeeded.\<close>

datatype bus_event = BusRead nat nat bool | BusWrite nat "8 word list" bool

text \<open>
  The driver instance. \<open>rtc\<close> to \<open>stat\<close> are the five unions of the source's \<^verbatim>\<open>ds3231_\<close>
  member, \<open>failed\<close> is the component's failed mark. The rest is the state of the external
  collaborators the methods act on: the chip's register file behind the bus (\<open>chip\<close>), the
  outcomes of the coming bus transactions in order (\<open>bus_ok\<close>; once the list is used up
  a transaction succeeds), the transactions issued so far (\<open>bus_log\<close>), the log lines
  emitted so far as level and format string (\<open>logs\<close>), and the epochs handed to the host
  clock so far (\<open>synced\<close>).
\<close>

record DS3231Component =
  rtc :: raw
  alrm_1 :: raw
  alrm_2 :: raw
  ctrl :: raw
  stat :: raw
  failed :: bool
  chip :: "nat \<Rightarrow> 8 word"
  bus_ok :: "bool list"
  bus_log :: "bus_event list"
  logs :: "(log_level \<times> string) list"
  synced :: "int list"

definition esp_log :: "log_level \<Rightarrow> string \<Rightarrow> DS3231Component \<Rightarrow> DS3231Component" where
  "esp_log l m c = c\<lparr>logs := logs c @ [(l, m)]\<rparr>"

definition mark_failed :: "DS3231Component \<Rightarrow> DS3231Component" where
  "mark_failed c = c\<lparr>failed := True\<rparr>"

definition synchronize_epoch :: "int \<Rightarrow> DS3231Component \<Rightarrow> DS3231Component" where
  "synchronize_epoch t c = c\<lparr>synced := synced c @ [t]\<rparr>"

subsection \<open>Bus transport\<close>

text \<open>
  Modelled from the spec: the bus transport (\<^verbatim>\<open>read_bytes\<close>, \<^verbatim>\<open>write_bytes\<close> of the I2C
  device class, not among the source files). Each call is one transaction. A successful
  read copies \<open>len\<close> bytes of the chip's registers, from the address on, into the buffer; a
  failed read leaves the buffer as it was. A successful write copies the buffer's first
  \<open>len\<close> bytes into the chip's registers; a failed write leaves the chip as it was.
\<close>

definition next_ok :: "bool list \<Rightarrow> bool" where
  "next_ok oks = (case oks of [] \<Rightarrow> True | ok # rest \<Rightarrow> ok)"

text \<open>The buffer after \<open>len\<close> registers from address \<open>a\<close> on were copied into it, and the
  registers after the buffer's first \<open>len\<close> bytes were copied to address \<open>a\<close> on.\<close>

definition fetched :: "(nat \<Rightarrow> 8 word) \<Rightarrow> nat \<Rightarrow> nat \<Rightarrow> raw \<Rightarrow> raw" where
  "fetched regs a len buf = (\<lambda>i. if i < len then regs (a + i) else buf i)"

definition stored :: "(nat \<Rightarrow> 8 word) \<Rightarrow> nat \<Rightarrow> nat \<Rightarrow> raw \<Rightarrow> (nat \<Rightarrow> 8 word)" where
  "stored regs a len buf = (\<lambda>r. if a \<le> r \<and> r < a + len then buf (r - a) else regs r)"

definition read_bytes :: "nat \<Rightarrow> raw \<Rightarrow> nat \<Rightarrow> DS3231Component \<Rightarrow> bool \<times> raw \<times> DS3231Component" where
  "read_bytes a buf len c =
     (let ok = next_ok (bus_ok c);
          c' = c\<lparr>bus_ok := tl (bus_ok c), bus_log := bus_log c @ [BusRead a len ok]\<rparr>
      in (ok, (if ok then fetched (chip c) a len buf else buf), c'))"

definition write_bytes :: "nat \<Rightarrow> raw \<Rightarrow> nat \<Rightarrow> DS3231Component \<Rightarrow> bool \<times> DS3231Component" where
  "write_bytes a buf len c =
     (let ok = next_ok (bus_ok c);
          c' = c\<lparr>bus_ok := tl (bus_ok c),
                 bus_log := bus_log c @ [BusWrite a (map buf [0..<len]) ok]\<rparr>
      in (ok, (if ok then c'\<lparr>chip := stored (chip c) a len buf\<rparr> else c')))"

section \<open>Register access procedures\<close>

text \<open>The source's private methods end in an underscore (\<^verbatim>\<open>read_rtc_\<close>, \<^verbatim>\<open>write_ctrl_\<close>,
  \<^verbatim>\<open>synchronize_epoch_\<close>); their names here drop it. Each returns the method's result
  and the instance after the call.\<close>

definition read_rtc :: "DS3231Component \<Rightarrow> bool \<times> DS3231Component" where
  "read_rtc c =
     (case read_bytes DS3231_RTC_ADDRESS (rtc c) rtc_size c of (ok, buf, c') \<Rightarrow>
        if \<not> ok then (False, esp_log LOGE ''Can't read I2C data.'' c')
        else (True, esp_log LOGD ''Read  %0u%0u:%0u%0u:%0u%0u 20%0u%0u-%0u%0u-%0u%0u''
                      (c'\<lparr>rtc := buf\<rparr>)))"

definition write_rtc :: "DS3231Component \<Rightarrow> bool \<times> DS3231Component" where
  "write_rtc c =
     (case write_bytes DS3231_RTC_ADDRESS (rtc c) rtc_size c of (ok, c') \<Rightarrow>
        if \<not> ok then (False, esp_log LOGE ''Can't write I2C data.'' c')
        else (True, esp_log LOGD ''Write %0u%0u:%0u%0u:%0u%0u 20%0u%0u-%0u%0u-%0u%0u'' c'))"

definition read_alrm_1 :: "DS3231Component \<Rightarrow> bool \<times> DS3231Component" where
  "read_alrm_1 c =
     (case read_bytes DS3231_ALARM_1_ADDRESS (alrm_1 c) alrm_1_size c of (ok, buf, c') \<Rightarrow>
        if \<not> ok then (False, esp_log LOGE ''Can't read I2C data.'' c')
        else (True, esp_log LOGD
                      ''Read  Alarm1 - %0u%0u:%0u%0u:%0u%0u %s:%0u%0u M1:%0u M2:%0u M3:%0u M4:%0u''
                      (c'\<lparr>alrm_1 := buf\<rparr>)))"

definition write_alrm_1 :: "DS3231Component \<Rightarrow> bool \<times> DS3231Component" where
  "write_alrm_1 c =
     (case write_bytes DS3231_ALARM_1_ADDRESS (alrm_1 c) alrm_1_size c of (ok, c') \<Rightarrow>
        if \<not> ok then (False, esp_log LOGE ''Can't write I2C data.'' c')
        else (True, esp_log LOGD
                      ''Write Alarm1 - %0u%0u:%0u%0u:%0u%0u %s:%0u%0u M1:%0u M2:%0u M3:%0u M4:%0u''
                      c'))"

definition read_alrm_2 :: "DS3231Component \<Rightarrow> bool \<times> DS3231Component" where
  "read_alrm_2 c =
     (case read_bytes DS3231_ALARM_1_ADDRESS (alrm_2 c) alrm_2_size c of (ok, buf, c') \<Rightarrow>
        if \<not> ok then (False, esp_log LOGE ''Can't read I2C data.'' c')
        else (True, esp_log LOGD ''Read  Alarm2 - %0u%0u:%0u%0u %s:%0u%0u M2:%0u M3:%0u M4:%0u''
                      (c'\<lparr>alrm_2 := buf\<rparr>)))"

definition write_alrm_2 :: "DS3231Component \<Rightarrow> bool \<times> DS3231Component" where
  "write_alrm_2 c =
     (case write_bytes DS3231_ALARM_1_ADDRESS (alrm_2 c) alrm_2_size c of (ok, c') \<Rightarrow>
        if \<not> ok then (False, esp_log LOGE ''Can't write I2C data.'' c')
        else (True, esp_log LOGD ''Write Alarm2 - %0u%0u:%0u%0u %s:%0u%0u M2:%0u M3:%0u M4:%0u''
                      c'))"

definition read_ctrl :: "DS3231Component \<Rightarrow> bool \<times> DS3231Component" where
  "read_ctrl c =
     (case read_bytes DS3231_CONTROL_ADDRESS (ctrl c) ctrl_size c of (ok, buf, c') \<Rightarrow>
        if \<not> ok then (False, esp_log LOGE ''Can't read I2C data.'' c')
        else (True, esp_log LOGD ''Read  A1I:%s A2I:%s INT_SQW:%s RS:%0u CT:%s BSQW:%s OSC:%s''
                      (c'\<lparr>ctrl := buf\<rparr>)))"

definition write_ctrl :: "DS3231Component \<Rightarrow> bool \<times> DS3231Component" where
  "write_ctrl c =
     (case write_bytes DS3231_CONTROL_ADDRESS (ctrl c) ctrl_size c of (ok, c') \<Rightarrow>
        if \<not> ok then (False, esp_log LOGE ''Can't write I2C data.'' c')
        else (True, esp_log LOGD ''Write A1I:%s A2I:%s INT_SQW:%s RS:%0u CT:%s BSQW:%s OSC:%s''
                      c'))"

definition read_stat :: "DS3231Component \<Rightarrow> bool \<times> DS3231Component" where
  "read_stat c =
     (case read_bytes DS3231_STATUS_ADDRESS (stat c) stat_size c of (ok, buf, c') \<Rightarrow>
        if \<not> ok then (False, esp_log LOGE ''Can't read I2C data.'' c')
        else (True, esp_log LOGD ''Read  A1:%s A2:%s BSY:%s 32K:%s OSC:%s''
                      (c'\<lparr>stat := buf\<rparr>)))"

definition write_stat :: "DS3231Component \<Rightarrow> bool \<times> DS3231Component" where
  "write_stat c =
     (case write_bytes DS3231_STATUS_ADDRESS (stat c) stat_size c of (ok, c') \<Rightarrow>
        if \<not> ok then (False, esp_log LOGE ''Can't write I2C data.'' c')
        else (True, esp_log LOGD ''Write A1:%s A2:%s BSY:%s 32K:%s OSC:%s'' c'))"

section \<open>The component's operations\<close>

text \<open>\<^verbatim>\<open>DS3231Component::setup\<close>; the bare name is a keyword of the prover.\<close>

definition setup_DS3231 :: "DS3231Component \<Rightarrow> DS3231Component" where
  "setup_DS3231 c0 =
     (let c = esp_log LOGCONFIG ''Setting up DS3231...'' c0;
          (ok, c) = read_rtc c;
          c = (if \<not> ok then mark_failed c else c);
          (ok, c) = read_alrm_1 c;
          c = (if \<not> ok then mark_failed c else c);
          (ok, c) = read_alrm_2 c;
          c = (if \<not> ok then mark_failed c else c);
          (ok, c) = read_ctrl c;
          c = (if \<not> ok then mark_failed c else c);
          (ok, c) = read_stat c;
          c = (if \<not> ok then mark_failed c else c)
      in c)"

text \<open>The calendar time that \<^verbatim>\<open>read_time\<close> builds from the time registers' image: each
  member is the \<^verbatim>\<open>uint8_t\<close> (for the year, \<^verbatim>\<open>uint16_t\<close>) of units plus ten times tens.\<close>

definition rtc_decode :: "raw \<Rightarrow> ESPTime" where
  "rtc_decode r =
     \<lparr>second = reg_get rtc_second r + 10 * reg_get rtc_second_10 r,
      minute = reg_get rtc_minute r + 10 * reg_get rtc_minute_10 r,
      hour = reg_get rtc_hour r + 10 * reg_get rtc_hour_10 r,
      day_of_week = reg_get rtc_weekday r,
      day_of_month = reg_get rtc_day r + 10 * reg_get rtc_day_10 r,
      day_of_year = 1,
      month = reg_get rtc_month r + 10 * reg_get rtc_month_10 r,
      year = ucast (reg_get rtc_year r) + 10 * ucast (reg_get rtc_year_10 r) + 2000,
      timestamp = 0\<rparr>"

text \<open>
  \<^verbatim>\<open>read_time\<close>. The host's \<^verbatim>\<open>ESPTime::recalc_timestamp_utc\<close> and \<^verbatim>\<open>ESPTime::is_valid\<close> are
  not among the source files; they are parameters, the first giving the time value after
  the recomputation.
\<close>

definition read_time ::
    "(ESPTime \<Rightarrow> ESPTime) \<Rightarrow> (ESPTime \<Rightarrow> bool) \<Rightarrow> DS3231Component \<Rightarrow> DS3231Component" where
  "read_time recalc_timestamp_utc is_valid c0 =
     (let (ok, c) = read_stat c0 in
      if \<not> ok then c
      else if flag_get stat_osc_stop (stat c)
      then esp_log LOGW ''RTC halted, not syncing to system clock.'' c
      else
        (let (ok, c) = read_rtc c in
         if \<not> ok then c
         else
           (let rtc_time = recalc_timestamp_utc (rtc_decode (rtc c)) in
            if \<not> is_valid rtc_time
            then esp_log LOGE ''Invalid RTC time, not syncing to system clock.'' c
            else synchronize_epoch (timestamp rtc_time) c)))"

definition update ::
    "(ESPTime \<Rightarrow> ESPTime) \<Rightarrow> (ESPTime \<Rightarrow> bool) \<Rightarrow> DS3231Component \<Rightarrow> DS3231Component" where
  "update recalc_timestamp_utc is_valid c = read_time recalc_timestamp_utc is_valid c"

text \<open>The assignments of \<^verbatim>\<open>write_time\<close> to the time registers' image. \<^verbatim>\<open>now.year - 2000\<close>
  is \<^verbatim>\<open>int\<close> arithmetic, with C++'s truncating division and remainder.\<close>

definition rtc_encode :: "ESPTime \<Rightarrow> raw \<Rightarrow> raw" where
  "rtc_encode now r0 =
     (let r = reg_set rtc_second (second now mod 10) r0;
          r = reg_set rtc_second_10 (second now div 10) r;
          r = reg_set rtc_minute (minute now mod 10) r;
          r = reg_set rtc_minute_10 (minute now div 10) r;
          r = reg_set rtc_hour (hour now mod 10) r;
          r = reg_set rtc_hour_10 (hour now div 10) r;
          r = reg_set rtc_weekday (day_of_week now) r;
          r = reg_set rtc_day (day_of_month now mod 10) r;
          r = reg_set rtc_day_10 (day_of_month now div 10) r;
          r = reg_set rtc_month (month now mod 10) r;
          r = reg_set rtc_month_10 (month now div 10) r;
          r = reg_set rtc_year (of_int ((uint (year now) - 2000) smod 10)) r;
          r = reg_set rtc_year_10 (of_int (((uint (year now) - 2000) sdiv 10) smod 10)) r
      in r)"

text \<open>\<^verbatim>\<open>write_time\<close>. \<open>now\<close> is what the host's \<^verbatim>\<open>utcnow()\<close> returns.\<close>

definition write_time :: "(ESPTime \<Rightarrow> bool) \<Rightarrow> ESPTime \<Rightarrow> DS3231Component \<Rightarrow> DS3231Component" where
  "write_time is_valid now c0 =
     (if \<not> is_valid now
      then esp_log LOGE ''Invalid system time, not syncing to RTC.'' c0
      else
        (let c = snd (read_stat c0);
             c = (if flag_get stat_osc_stop (stat c)
                  then snd (write_stat (c\<lparr>stat := flag_set stat_osc_stop False (stat c)\<rparr>))
                  else c);
             c = c\<lparr>rtc := rtc_encode now (rtc c)\<rparr>
         in snd (write_rtc c)))"

text \<open>The assignments of \<^verbatim>\<open>set_alarm\<close> to the alarm registers' images.\<close>

definition alrm_1_encode :: "32 word \<Rightarrow> 8 word \<Rightarrow> 8 word \<Rightarrow> 8 word \<Rightarrow> 8 word \<Rightarrow> raw \<Rightarrow> raw" where
  "alrm_1_encode alarm_type sec mnt hr dy r0 =
     (let r = reg_set alrm_1_second (sec mod 10) r0;
          r = reg_set alrm_1_second_10 (sec div 10) r;
          r = flag_set alrm_1_m1 (alarm_type AND DS3231_ALARM_TYPE_M1 \<noteq> 0) r;
          r = reg_set alrm_1_minute (mnt mod 10) r;
          r = reg_set alrm_1_minute_10 (mnt div 10) r;
          r = flag_set alrm_1_m2 (alarm_type AND DS3231_ALARM_TYPE_M2 \<noteq> 0) r;
          r = reg_set alrm_1_hour (hr mod 10) r;
          r = reg_set alrm_1_hour_10 (hr div 10) r;
          r = flag_set alrm_1_m3 (alarm_type AND DS3231_ALARM_TYPE_M3 \<noteq> 0) r;
          r = reg_set alrm_1_day (dy mod 10) r;
          r = reg_set alrm_1_day_10 (dy div 10) r;
          r = flag_set alrm_1_day_mode (alarm_type AND DS3231_ALARM_TYPE_DAY_MODE \<noteq> 0) r;
          r = flag_set alrm_1_m4 (alarm_type AND DS3231_ALARM_TYPE_M4 \<noteq> 0) r
      in r)"

definition alrm_2_encode :: "32 word \<Rightarrow> 8 word \<Rightarrow> 8 word \<Rightarrow> 8 word \<Rightarrow> raw \<Rightarrow> raw" where
  "alrm_2_encode alarm_type mnt hr dy r0 =
     (let r = reg_set alrm_2_minute (mnt mod 10) r0;
          r = reg_set alrm_2_minute_10 (mnt div 10) r;
          r = flag_set alrm_2_m2 (alarm_type AND DS3231_ALARM_TYPE_M2 \<noteq> 0) r;
          r = reg_set alrm_2_hour (hr mod 10) r;
          r = reg_set alrm_2_hour_10 (hr div 10) r;
          r = flag_set alrm_2_m3 (alarm_type AND DS3231_ALARM_TYPE_M3 \<noteq> 0) r;
          r = reg_set alrm_2_day (dy mod 10) r;
          r = reg_set alrm_2_day_10 (dy div 10) r;
          r = flag_set alrm_2_day_mode (alarm_type AND DS3231_ALARM_TYPE_DAY_MODE \<noteq> 0) r;
          r = flag_set alrm_2_m4 (alarm_type AND DS3231_ALARM_TYPE_M4 \<noteq> 0) r
      in r)"

text \<open>\<^verbatim>\<open>set_alarm\<close>. The alarm type is the enumerator's value as the masks see it
  (\<^verbatim>\<open>uint32_t\<close>); second, minute, hour and day are \<^verbatim>\<open>uint8_t\<close>, and are called \<open>sec\<close>,
  \<open>mnt\<close>, \<open>hr\<close> and \<open>dy\<close> here, the full words being the members of the host's time.\<close>

definition set_alarm ::
    "32 word \<Rightarrow> 8 word \<Rightarrow> 8 word \<Rightarrow> 8 word \<Rightarrow> 8 word \<Rightarrow> DS3231Component \<Rightarrow> DS3231Component" where
  "set_alarm alarm_type sec mnt hr dy c0 =
     (let c = snd (read_ctrl c0);
          interupt = (alarm_type AND DS3231_ALARM_TYPE_INTERUPT \<noteq> 0)
      in
      if alarm_type AND DS3231_ALARM_TYPE_ALARM_NUMBER = 0
      then
        (let c = snd (read_alrm_1 c);
             c = c\<lparr>alrm_1 := alrm_1_encode alarm_type sec mnt hr dy (alrm_1 c)\<rparr>;
             c = snd (write_alrm_1 c)
         in if flag_get ctrl_alrm_1_int (ctrl c) \<noteq> interupt
            then snd (write_ctrl (c\<lparr>ctrl := flag_set ctrl_alrm_1_int interupt (ctrl c)\<rparr>))
            else c)
      else
        (let c = snd (read_alrm_2 c);
             c = c\<lparr>alrm_2 := alrm_2_encode alarm_type mnt hr dy (alrm_2 c)\<rparr>;
             c = snd (write_alrm_2 c)
         in if flag_get ctrl_alrm_2_int (ctrl c) \<noteq> interupt
            then snd (write_ctrl (c\<lparr>ctrl := flag_set ctrl_alrm_2_int interupt (ctrl c)\<rparr>))
            else c))"

text \<open>
  \<^verbatim>\<open>set_sqw_mode\<close>. The enumerators of \<^verbatim>\<open>DS3231SquareWaveMode\<close> are declared in ds3231.h,
  which is not among the source files: a mode is its enumerator's value, and the value of
  \<^verbatim>\<open>DS3231SquareWaveMode::ALARM_INTERUPT\<close> is the parameter \<open>ALARM_INTERUPT\<close>. The two-bit rate
  field is compared with the mode as integers, and assigning the mode to it keeps the
  mode's two low bits.
\<close>

definition set_sqw_mode :: "int \<Rightarrow> int \<Rightarrow> DS3231Component \<Rightarrow> DS3231Component" where
  "set_sqw_mode ALARM_INTERUPT mode c0 =
     (let c = snd (read_ctrl c0) in
      if mode = ALARM_INTERUPT \<and> \<not> flag_get ctrl_int_ctrl (ctrl c)
      then snd (write_ctrl (c\<lparr>ctrl := flag_set ctrl_int_ctrl True (ctrl c)\<rparr>))
      else if flag_get ctrl_int_ctrl (ctrl c) \<or> uint (reg_get ctrl_rs (ctrl c)) \<noteq> mode
      then snd (write_ctrl
                  (c\<lparr>ctrl := reg_set ctrl_rs (of_int mode)
                                (flag_set ctrl_int_ctrl False (ctrl c))\<rparr>))
      else c)"

datatype DS3231AlarmNumber = ALARM_1 | ALARM_2

definition reset_alarm :: "DS3231AlarmNumber \<Rightarrow> DS3231Component \<Rightarrow> DS3231Component" where
  "reset_alarm alarm_number c0 =
     (let c = snd (read_stat c0);
          c = (if alarm_number = ALARM_1 \<and> flag_get stat_alrm_1_act (stat c)
               then c\<lparr>stat := flag_set stat_alrm_1_act False (stat c)\<rparr>
               else if alarm_number = ALARM_2 \<and> flag_get stat_alrm_2_act (stat c)
               then c\<lparr>stat := flag_set stat_alrm_2_act False (stat c)\<rparr>
               else c)
      in snd (write_stat c))"

section \<open>Observing a run\<close>

text \<open>The write transactions among the transactions of a log, and the transactions an
  operation added to the log.\<close>

fun is_write :: "bus_event \<Rightarrow> bool" where
  "is_write (BusWrite a bs ok) = True"
| "is_write (BusRead a len ok) = False"

definition issued :: "DS3231Component \<Rightarrow> DS3231Component \<Rightarrow> bus_event list" where
  "issued c c' = drop (length (bus_log c)) (bus_log c')"

text \<open>The register address a transaction goes to.\<close>

fun event_address :: "bus_event \<Rightarrow> nat" where
  "event_address (BusRead a len ok) = a"
| "event_address (BusWrite a bs ok) = a"

text \<open>The fields of an alarm-1 image read back: second, minute, hour and day as units plus
  ten times tens (the way \<^verbatim>\<open>read_time\<close> combines the digits of the time registers), then
  the match bits M1 to M4 and the day-mode flag.\<close>

definition alrm_1_decode ::
    "raw \<Rightarrow> 8 word \<times> 8 word \<times> 8 word \<times> 8 word \<times> bool \<times> bool \<times> bool \<times> bool \<times> bool" where
  "alrm_1_decode r =
     (reg_get alrm_1_second r + 10 * reg_get alrm_1_second_10 r,
      reg_get alrm_1_minute r + 10 * reg_get alrm_1_minute_10 r,
      reg_get alrm_1_hour r + 10 * reg_get alrm_1_hour_10 r,
      reg_get alrm_1_day r + 10 * reg_get alrm_1_day_10 r,
      flag_get alrm_1_m1 r, flag_get alrm_1_m2 r, flag_get alrm_1_m3 r, flag_get alrm_1_m4 r,
      flag_get alrm_1_day_mode r)"

text \<open>A concrete instance for evaluating the operations: every image byte and every chip
  register zero, nothing failed, logged or issued yet, and a bus on which every
  transaction succeeds.\<close>

definition blank :: DS3231Component where
  "blank = \<lparr>rtc = (\<lambda>i. 0), alrm_1 = (\<lambda>i. 0), alrm_2 = (\<lambda>i. 0), ctrl = (\<lambda>i. 0),
     stat = (\<lambda>i. 0), failed = False, chip = (\<lambda>a. 0), bus_ok = [], bus_log = [],
     logs = [], synced = []\<rparr>"

section \<open>Bit-fields\<close>

lemma reg_get_set_same:
  "p + w \<le> 8 \<Longrightarrow> reg_get (Field b p w) (reg_set (Field b p w) v r) = take_bit w v"
  apply (simp add: reg_get_def reg_set_def)
  apply (rule bit_eqI)
  apply (auto simp add: bit_simps)
  done

lemma reg_get_set_other_byte:
  "b \<noteq> b' \<Longrightarrow> reg_get (Field b p w) (reg_set (Field b' p' w') v r) = reg_get (Field b p w) r"
  by (simp add: reg_get_def reg_set_def)

lemma reg_get_set_disjoint:
  "p + w \<le> p' \<or> p' + w' \<le> p \<Longrightarrow>
     reg_get (Field b p w) (reg_set (Field b p' w') v r) = reg_get (Field b p w) r"
  apply (simp add: reg_get_def reg_set_def)
  apply (rule bit_eqI)
  apply (auto simp add: bit_simps dest: bit_imp_le_length)
  done

lemmas reg_get_set = reg_get_set_same reg_get_set_other_byte reg_get_set_disjoint

lemmas rtc_fields = rtc_second_def rtc_second_10_def rtc_minute_def rtc_minute_10_def
  rtc_hour_def rtc_hour_10_def rtc_weekday_def rtc_day_def rtc_day_10_def rtc_month_def
  rtc_month_10_def rtc_year_def rtc_year_10_def

lemma map_upt_3: "map f [0..<3] = [f 0, f 1, f 2]"
  by (simp add: eval_nat_numeral)

lemma map_upt_4: "map f [0..<4] = [f 0, f 1, f 2, f 3]"
  by (simp add: eval_nat_numeral)

lemma map_upt_7: "map f [0..<7] = [f 0, f 1, f 2, f 3, f 4, f 5, f 6]"
  by (simp add: eval_nat_numeral)

section \<open>Addresses of the alarm transactions\<close>

text \<open>
  C1. Every bus transaction of the alarm-2 access procedures should target register
  address 0x0B with a length of 3 bytes, and those of alarm 1 address 0x07 with 4 bytes.
  The source's \<^verbatim>\<open>read_alrm_2_\<close> and \<^verbatim>\<open>write_alrm_2_\<close> pass \<^verbatim>\<open>DS3231_ALARM_1_ADDRESS\<close>: the one
  transaction each of them issues has the right length, 3, but goes to address 0x07, the
  address of alarm 1, and not to \<^verbatim>\<open>DS3231_ALARM_2_ADDRESS\<close>, which is 0x0B. The alarm-1
  procedures do target 0x07 with 4 bytes.
\<close>

theorem alrm_2_transactions_use_alarm_1_address:
  "issued c (snd (read_alrm_2 c)) = [BusRead 0x07 3 (next_ok (bus_ok c))] \<and>
   issued c (snd (write_alrm_2 c)) =
     [BusWrite 0x07 [alrm_2 c 0, alrm_2 c 1, alrm_2 c 2] (next_ok (bus_ok c))] \<and>
   issued c (snd (read_alrm_1 c)) = [BusRead 0x07 4 (next_ok (bus_ok c))] \<and>
   issued c (snd (write_alrm_1 c)) =
     [BusWrite 0x07 [alrm_1 c 0, alrm_1 c 1, alrm_1 c 2, alrm_1 c 3] (next_ok (bus_ok c))] \<and>
   DS3231_ALARM_2_ADDRESS = 0x0B"
  by (simp add: issued_def read_alrm_2_def write_alrm_2_def read_alrm_1_def write_alrm_1_def
      read_bytes_def write_bytes_def esp_log_def Let_def DS3231_ALARM_1_ADDRESS_def
      DS3231_ALARM_2_ADDRESS_def alrm_1_size_def alrm_2_size_def map_upt_3 map_upt_4)

section \<open>Binary-coded decimal\<close>

lemma bcd_units_tens_3:
  fixes v :: "8 word"
  assumes "v \<le> 79"
  shows "take_bit 4 (v mod 10) + 10 * take_bit 3 (v div 10) = v"
proof -
  have "unat v \<le> 79" using assms by (simp add: word_le_nat_alt)
  then show ?thesis
    by (simp add: word_unat_eq_iff unat_word_ariths unat_div unat_mod unsigned_take_bit_eq
        take_bit_eq_mod)
qed

lemma bcd_units_tens_2:
  fixes v :: "8 word"
  assumes "v \<le> 39"
  shows "take_bit 4 (v mod 10) + 10 * take_bit 2 (v div 10) = v"
proof -
  have "unat v \<le> 39" using assms by (simp add: word_le_nat_alt)
  then show ?thesis
    by (simp add: word_unat_eq_iff unat_word_ariths unat_div unat_mod unsigned_take_bit_eq
        take_bit_eq_mod)
qed

lemma bcd_units_tens_1:
  fixes v :: "8 word"
  assumes "v \<le> 19"
  shows "take_bit 4 (v mod 10) + 10 * (v div 10 mod 2) = v"
proof -
  have "unat v \<le> 19" using assms by (simp add: word_le_nat_alt)
  then show ?thesis
    by (simp add: word_unat_eq_iff unat_word_ariths unat_div unat_mod unsigned_take_bit_eq
        take_bit_eq_mod)
qed

lemma bcd_year:
  fixes y :: "16 word"
  assumes "2000 \<le> y" "y \<le> 2099"
  shows "ucast (take_bit 4 (word_of_int ((uint y - 2000) smod 10) :: 8 word))
         + 10 * ucast (take_bit 4 (word_of_int (((uint y - 2000) sdiv 10) smod 10) :: 8 word))
         + 2000 = y"
proof -
  define n where "n = uint y - 2000"
  have n: "0 \<le> n" "n \<le> 99" and y: "uint y = n + 2000"
    using assms by (simp_all add: n_def word_le_def)
  have m: "n smod 10 = n mod 10" "(n sdiv 10) smod 10 = n div 10"
    using n by (simp_all add: signed_modulo_int_def signed_divide_int_def sgn_if abs_if)
  have "uint (ucast (take_bit 4 (word_of_int (n mod 10) :: 8 word))
         + 10 * ucast (take_bit 4 (word_of_int (n div 10) :: 8 word))
         + 2000 :: 16 word) = uint y"
    using n
    apply (simp add: y uint_word_ariths unsigned_take_bit_eq uint_word_of_int unsigned_ucast_eq)
    apply (simp add: take_bit_eq_mod)
    done
  then show ?thesis
    unfolding n_def[symmetric] m by (simp add: word_uint_eq_iff)
qed

text \<open>What each field of the time registers' image holds after \<^verbatim>\<open>write_time\<close>'s assignments.\<close>

lemma rtc_encode_get:
  "reg_get rtc_second (rtc_encode now r) = take_bit 4 (second now mod 10)"
  "reg_get rtc_second_10 (rtc_encode now r) = take_bit 3 (second now div 10)"
  "reg_get rtc_minute (rtc_encode now r) = take_bit 4 (minute now mod 10)"
  "reg_get rtc_minute_10 (rtc_encode now r) = take_bit 3 (minute now div 10)"
  "reg_get rtc_hour (rtc_encode now r) = take_bit 4 (hour now mod 10)"
  "reg_get rtc_hour_10 (rtc_encode now r) = take_bit 2 (hour now div 10)"
  "reg_get rtc_weekday (rtc_encode now r) = take_bit 3 (day_of_week now)"
  "reg_get rtc_day (rtc_encode now r) = take_bit 4 (day_of_month now mod 10)"
  "reg_get rtc_day_10 (rtc_encode now r) = take_bit 2 (day_of_month now div 10)"
  "reg_get rtc_month (rtc_encode now r) = take_bit 4 (month now mod 10)"
  "reg_get rtc_month_10 (rtc_encode now r) = take_bit 1 (month now div 10)"
  "reg_get rtc_year (rtc_encode now r) = take_bit 4 (of_int ((uint (year now) - 2000) smod 10))"
  "reg_get rtc_year_10 (rtc_encode now r) =
     take_bit 4 (of_int (((uint (year now) - 2000) sdiv 10) smod 10))"
  by (simp_all add: rtc_encode_def Let_def rtc_fields reg_get_set)

text \<open>
  C4. For every field value in its valid range (seconds and minutes 0 to 59, hours 0 to
  23, day of month 1 to 31, month 1 to 12, year offset 0 to 99, that is years 2000 to
  2099), encoding it into a tens and units pair as \<^verbatim>\<open>write_time\<close> does (units \<open>v % 10\<close>,
  tens \<open>v / 10\<close>, each stored in its bit-field) and decoding the pair as \<^verbatim>\<open>read_time\<close> does
  (units plus ten times tens) gives the value back, whatever the image held before.
\<close>

theorem bcd_round_trip:
  "(second now \<le> 59 \<longrightarrow> second (rtc_decode (rtc_encode now r)) = second now) \<and>
   (minute now \<le> 59 \<longrightarrow> minute (rtc_decode (rtc_encode now r)) = minute now) \<and>
   (hour now \<le> 23 \<longrightarrow> hour (rtc_decode (rtc_encode now r)) = hour now) \<and>
   (1 \<le> day_of_month now \<and> day_of_month now \<le> 31 \<longrightarrow>
      day_of_month (rtc_decode (rtc_encode now r)) = day_of_month now) \<and>
   (1 \<le> month now \<and> month now \<le> 12 \<longrightarrow>
      month (rtc_decode (rtc_encode now r)) = month now) \<and>
   (2000 \<le> year now \<and> year now \<le> 2099 \<longrightarrow>
      year (rtc_decode (rtc_encode now r)) = year now)"
proof (intro conjI impI)
  assume "second now \<le> 59"
  then have "second now \<le> 79" by (rule order_trans) simp
  then show "second (rtc_decode (rtc_encode now r)) = second now"
    by (simp add: rtc_decode_def rtc_encode_get bcd_units_tens_3)
next
  assume "minute now \<le> 59"
  then have "minute now \<le> 79" by (rule order_trans) simp
  then show "minute (rtc_decode (rtc_encode now r)) = minute now"
    by (simp add: rtc_decode_def rtc_encode_get bcd_units_tens_3)
next
  assume "hour now \<le> 23"
  then have "hour now \<le> 39" by (rule order_trans) simp
  then show "hour (rtc_decode (rtc_encode now r)) = hour now"
    by (simp add: rtc_decode_def rtc_encode_get bcd_units_tens_2)
next
  assume "1 \<le> day_of_month now \<and> day_of_month now \<le> 31"
  then have "day_of_month now \<le> 31" by simp
  then have "day_of_month now \<le> 39" by (rule order_trans) simp
  then show "day_of_month (rtc_decode (rtc_encode now r)) = day_of_month now"
    by (simp add: rtc_decode_def rtc_encode_get bcd_units_tens_2)
next
  assume "1 \<le> month now \<and> month now \<le> 12"
  then have "month now \<le> 12" by simp
  then have "month now \<le> 19" by (rule order_trans) simp
  then show "month (rtc_decode (rtc_encode now r)) = month now"
    by (simp add: rtc_decode_def rtc_encode_get bcd_units_tens_1)
next
  assume "2000 \<le> year now \<and> year now \<le> 2099"
  then show "year (rtc_decode (rtc_encode now r)) = year now"
    by (simp add: rtc_decode_def rtc_encode_get bcd_year)
qed

text \<open>At 23:07:59 on 31 December 2026, encoded over an image of all ones, every field is in
  range and comes back; the day of the year is the constant 1 of \<^verbatim>\<open>read_time\<close>.\<close>

theorem bcd_round_trip_witness:
  "rtc_decode (rtc_encode
      \<lparr>second = 59, minute = 7, hour = 23, day_of_week = 5, day_of_month = 31,
        day_of_year = 365, month = 12, year = 2026, timestamp = 0\<rparr>
      (\<lambda>i. 0xFF)) =
      \<lparr>second = 59, minute = 7, hour = 23, day_of_week = 5, day_of_month = 31,
        day_of_year = 1, month = 12, year = 2026, timestamp = 0\<rparr>"
  using bcd_round_trip [of "\<lparr>second = 59, minute = 7, hour = 23, day_of_week = 5,
        day_of_month = 31, day_of_year = 365, month = 12, year = 2026, timestamp = 0\<rparr>"
      "\<lambda>i. 0xFF"]
  by (simp add: rtc_decode_def rtc_encode_get)

section \<open>Writing the time\<close>

text \<open>
  C7. Whenever the host clock reports an invalid current time, \<^verbatim>\<open>write_time\<close> stops before
  any bus transaction: it issues no read and no write of any register group, and leaves
  the instance, the chip included, as it was but for one error line in the log.
\<close>

theorem write_time_invalid_host_time:
  "\<not> is_valid now \<Longrightarrow>
     issued c (write_time is_valid now c) = [] \<and>
     write_time is_valid now c =
       c\<lparr>logs := logs c @ [(LOGE, ''Invalid system time, not syncing to RTC.'')]\<rparr>"
  by (simp add: write_time_def esp_log_def issued_def)

text \<open>A host clock that was never set reads 1970, which a validity check asking for a year
  from 2019 on rejects.\<close>

theorem write_time_invalid_host_time_witness:
  "\<not> (\<lambda>t. 2019 \<le> year t)
       \<lparr>second = 0, minute = 0, hour = 0, day_of_week = 5, day_of_month = 1,
         day_of_year = 1, month = 1, year = 1970, timestamp = 0\<rparr> \<and>
   bus_log (write_time (\<lambda>t. 2019 \<le> year t)
       \<lparr>second = 0, minute = 0, hour = 0, day_of_week = 5, day_of_month = 1,
         day_of_year = 1, month = 1, year = 1970, timestamp = 0\<rparr> blank) = [] \<and>
   chip (write_time (\<lambda>t. 2019 \<le> year t)
       \<lparr>second = 0, minute = 0, hour = 0, day_of_week = 5, day_of_month = 1,
         day_of_year = 1, month = 1, year = 1970, timestamp = 0\<rparr> blank) = chip blank"
  using write_time_invalid_host_time [of "\<lambda>t. 2019 \<le> year t"
      "\<lparr>second = 0, minute = 0, hour = 0, day_of_week = 5, day_of_month = 1,
         day_of_year = 1, month = 1, year = 1970, timestamp = 0\<rparr>" blank]
  by (simp add: blank_def)

section \<open>Flags and the access procedures, byte by byte\<close>

lemmas access_defs = read_rtc_def write_rtc_def read_alrm_1_def write_alrm_1_def
  read_alrm_2_def write_alrm_2_def read_ctrl_def write_ctrl_def read_stat_def write_stat_def
  read_bytes_def write_bytes_def esp_log_def Let_def

lemma flag_get_bit: "flag_get (Field b p 1) r = bit (r b) p"
  by (simp add: flag_get_def reg_get_def bit_iff_odd_drop_bit mod2_eq_if take_bit_Suc_from_most)

lemma flag_set_byte:
  "p < 8 \<Longrightarrow> flag_set (Field b p 1) v r b =
     (if bit (r b) p = v then r b else r b XOR push_bit p 1)"
  apply (simp only: flag_set_def reg_set_def f_byte.simps f_pos.simps f_width.simps fun_upd_same)
  apply (cases v; cases "bit (r b) p")
     apply (simp_all only: if_True if_False simp_thms)
     apply (rule bit_eqI; auto simp add: bit_simps)+
  done

lemma flag_set_other_byte: "b' \<noteq> b \<Longrightarrow> flag_set (Field b p w) v r b' = r b'"
  by (simp add: flag_set_def reg_set_def)

lemma flag_set_upd:
  "p < 8 \<Longrightarrow> flag_set (Field b p 1) v r =
     r(b := if bit (r b) p = v then r b else r b XOR push_bit p 1)"
  using flag_set_byte [of p b v r] by (auto simp add: flag_set_other_byte fun_eq_iff)

lemma fetched_0: "0 < len \<Longrightarrow> fetched regs a len buf 0 = regs a"
  by (simp add: fetched_def)

lemma stat_flag_get:
  "flag_get stat_alrm_1_act r = bit (r 0) 0"
  "flag_get stat_alrm_2_act r = bit (r 0) 1"
  "flag_get stat_osc_stop r = bit (r 0) 7"
  using flag_get_bit [of 0 0 r] flag_get_bit [of 0 1 r] flag_get_bit [of 0 7 r]
  by (simp_all add: stat_alrm_1_act_def stat_alrm_2_act_def stat_osc_stop_def)

lemma stat_flag_set:
  "flag_set stat_alrm_1_act v r = r(0 := if bit (r 0) 0 = v then r 0 else r 0 XOR 0x01)"
  "flag_set stat_alrm_2_act v r = r(0 := if bit (r 0) 1 = v then r 0 else r 0 XOR 0x02)"
  "flag_set stat_osc_stop v r = r(0 := if bit (r 0) 7 = v then r 0 else r 0 XOR 0x80)"
  using flag_set_upd [of 0 0 v r] flag_set_upd [of 1 0 v r] flag_set_upd [of 7 0 v r]
  by (simp_all add: stat_alrm_1_act_def stat_alrm_2_act_def stat_osc_stop_def)

lemma ctrl_flag_get:
  "flag_get ctrl_alrm_1_int r = bit (r 0) 0"
  "flag_get ctrl_alrm_2_int r = bit (r 0) 1"
  "flag_get ctrl_int_ctrl r = bit (r 0) 2"
  using flag_get_bit [of 0 0 r] flag_get_bit [of 0 1 r] flag_get_bit [of 0 2 r]
  by (simp_all add: ctrl_alrm_1_int_def ctrl_alrm_2_int_def ctrl_int_ctrl_def)

lemma ctrl_flag_set:
  "flag_set ctrl_alrm_1_int v r = r(0 := if bit (r 0) 0 = v then r 0 else r 0 XOR 0x01)"
  "flag_set ctrl_alrm_2_int v r = r(0 := if bit (r 0) 1 = v then r 0 else r 0 XOR 0x02)"
  "flag_set ctrl_int_ctrl v r = r(0 := if bit (r 0) 2 = v then r 0 else r 0 XOR 0x04)"
  using flag_set_upd [of 0 0 v r] flag_set_upd [of 1 0 v r] flag_set_upd [of 2 0 v r]
  by (simp_all add: ctrl_alrm_1_int_def ctrl_alrm_2_int_def ctrl_int_ctrl_def)

lemma clear_unset_bit:
  fixes x :: "8 word"
  shows "\<not> bit x p \<Longrightarrow> x AND NOT (push_bit p 1) = x"
  by (rule bit_eqI) (auto simp add: bit_simps)

lemma xor_set_bit_eq_and_not:
  fixes x :: "8 word"
  shows "bit x p \<Longrightarrow> x XOR push_bit p 1 = x AND NOT (push_bit p 1)"
  by (rule bit_eqI) (auto simp add: bit_simps)

lemma clear_bit_0: "(if bit x 0 = False then x else x XOR 0x01) = (x AND NOT 0x01 :: 8 word)"
  using xor_set_bit_eq_and_not [of x 0] clear_unset_bit [of x 0] by auto

lemma clear_bit_1: "(if bit x 1 = False then x else x XOR 0x02) = (x AND NOT 0x02 :: 8 word)"
  using xor_set_bit_eq_and_not [of x 1] clear_unset_bit [of x 1] by auto

text \<open>What each access procedure does to the parts of the instance that the operations
  look at afterwards: its result, the transaction it adds, the outcome it uses up, the
  chip's registers and the five images. A read changes its own image only, and only when
  it succeeds; a write changes the chip only, and only when it succeeds.\<close>

lemma read_rtc_sel:
  "fst (read_rtc c) = next_ok (bus_ok c)"
  "bus_log (snd (read_rtc c)) = bus_log c @ [BusRead DS3231_RTC_ADDRESS rtc_size (next_ok (bus_ok c))]"
  "bus_ok (snd (read_rtc c)) = tl (bus_ok c)"
  "chip (snd (read_rtc c)) = chip c"
  "synced (snd (read_rtc c)) = synced c"
  "failed (snd (read_rtc c)) = failed c"
  "rtc (snd (read_rtc c)) =
     (if next_ok (bus_ok c) then fetched (chip c) DS3231_RTC_ADDRESS rtc_size (rtc c) else rtc c)"
  "alrm_1 (snd (read_rtc c)) = alrm_1 c"
  "alrm_2 (snd (read_rtc c)) = alrm_2 c"
  "ctrl (snd (read_rtc c)) = ctrl c"
  "stat (snd (read_rtc c)) = stat c"
  by (simp_all add: read_rtc_def read_bytes_def esp_log_def Let_def)

lemma write_rtc_sel:
  "fst (write_rtc c) = next_ok (bus_ok c)"
  "bus_log (snd (write_rtc c)) =
     bus_log c @ [BusWrite DS3231_RTC_ADDRESS (map (rtc c) [0..<rtc_size]) (next_ok (bus_ok c))]"
  "bus_ok (snd (write_rtc c)) = tl (bus_ok c)"
  "chip (snd (write_rtc c)) =
     (if next_ok (bus_ok c) then stored (chip c) DS3231_RTC_ADDRESS rtc_size (rtc c) else chip c)"
  "synced (snd (write_rtc c)) = synced c"
  "failed (snd (write_rtc c)) = failed c"
  "rtc (snd (write_rtc c)) = rtc c"
  "alrm_1 (snd (write_rtc c)) = alrm_1 c"
  "alrm_2 (snd (write_rtc c)) = alrm_2 c"
  "ctrl (snd (write_rtc c)) = ctrl c"
  "stat (snd (write_rtc c)) = stat c"
  by (simp_all add: write_rtc_def write_bytes_def esp_log_def Let_def)

lemma read_alrm_1_sel:
  "fst (read_alrm_1 c) = next_ok (bus_ok c)"
  "bus_log (snd (read_alrm_1 c)) = bus_log c @ [BusRead DS3231_ALARM_1_ADDRESS alrm_1_size (next_ok (bus_ok c))]"
  "bus_ok (snd (read_alrm_1 c)) = tl (bus_ok c)"
  "chip (snd (read_alrm_1 c)) = chip c"
  "synced (snd (read_alrm_1 c)) = synced c"
  "failed (snd (read_alrm_1 c)) = failed c"
  "rtc (snd (read_alrm_1 c)) = rtc c"
  "alrm_1 (snd (read_alrm_1 c)) =
     (if next_ok (bus_ok c) then fetched (chip c) DS3231_ALARM_1_ADDRESS alrm_1_size (alrm_1 c) else alrm_1 c)"
  "alrm_2 (snd (read_alrm_1 c)) = alrm_2 c"
  "ctrl (snd (read_alrm_1 c)) = ctrl c"
  "stat (snd (read_alrm_1 c)) = stat c"
  by (simp_all add: read_alrm_1_def read_bytes_def esp_log_def Let_def)

lemma write_alrm_1_sel:
  "fst (write_alrm_1 c) = next_ok (bus_ok c)"
  "bus_log (snd (write_alrm_1 c)) =
     bus_log c @ [BusWrite DS3231_ALARM_1_ADDRESS (map (alrm_1 c) [0..<alrm_1_size]) (next_ok (bus_ok c))]"
  "bus_ok (snd (write_alrm_1 c)) = tl (bus_ok c)"
  "chip (snd (write_alrm_1 c)) =
     (if next_ok (bus_ok c) then stored (chip c) DS3231_ALARM_1_ADDRESS alrm_1_size (alrm_1 c) else chip c)"
  "synced (snd (write_alrm_1 c)) = synced c"
  "failed (snd (write_alrm_1 c)) = failed c"
  "rtc (snd (write_alrm_1 c)) = rtc c"
  "alrm_1 (snd (write_alrm_1 c)) = alrm_1 c"
  "alrm_2 (snd (write_alrm_1 c)) = alrm_2 c"
  "ctrl (snd (write_alrm_1 c)) = ctrl c"
  "stat (snd (write_alrm_1 c)) = stat c"
  by (simp_all add: write_alrm_1_def write_bytes_def esp_log_def Let_def)

lemma read_alrm_2_sel:
  "fst (read_alrm_2 c) = next_ok (bus_ok c)"
  "bus_log (snd (read_alrm_2 c)) = bus_log c @ [BusRead DS3231_ALARM_1_ADDRESS alrm_2_size (next_ok (bus_ok c))]"
  "bus_ok (snd (read_alrm_2 c)) = tl (bus_ok c)"
  "chip (snd (read_alrm_2 c)) = chip c"
  "synced (snd (read_alrm_2 c)) = synced c"
  "failed (snd (read_alrm_2 c)) = failed c"
  "rtc (snd (read_alrm_2 c)) = rtc c"
  "alrm_1 (snd (read_alrm_2 c)) = alrm_1 c"
  "alrm_2 (snd (read_alrm_2 c)) =
     (if next_ok (bus_ok c) then fetched (chip c) DS3231_ALARM_1_ADDRESS alrm_2_size (alrm_2 c) else alrm_2 c)"
  "ctrl (snd (read_alrm_2 c)) = ctrl c"
  "stat (snd (read_alrm_2 c)) = stat c"
  by (simp_all add: read_alrm_2_def read_bytes_def esp_log_def Let_def)

lemma write_alrm_2_sel:
  "fst (write_alrm_2 c) = next_ok (bus_ok c)"
  "bus_log (snd (write_alrm_2 c)) =
     bus_log c @ [BusWrite DS3231_ALARM_1_ADDRESS (map (alrm_2 c) [0..<alrm_2_size]) (next_ok (bus_ok c))]"
  "bus_ok (snd (write_alrm_2 c)) = tl (bus_ok c)"
  "chip (snd (write_alrm_2 c)) =
     (if next_ok (bus_ok c) then stored (chip c) DS3231_ALARM_1_ADDRESS alrm_2_size (alrm_2 c) else chip c)"
  "synced (snd (write_alrm_2 c)) = synced c"
  "failed (snd (write_alrm_2 c)) = failed c"
  "rtc (snd (write_alrm_2 c)) = rtc c"
  "alrm_1 (snd (write_alrm_2 c)) = alrm_1 c"
  "alrm_2 (snd (write_alrm_2 c)) = alrm_2 c"
  "ctrl (snd (write_alrm_2 c)) = ctrl c"
  "stat (snd (write_alrm_2 c)) = stat c"
  by (simp_all add: write_alrm_2_def write_bytes_def esp_log_def Let_def)

lemma read_ctrl_sel:
  "fst (read_ctrl c) = next_ok (bus_ok c)"
  "bus_log (snd (read_ctrl c)) = bus_log c @ [BusRead DS3231_CONTROL_ADDRESS ctrl_size (next_ok (bus_ok c))]"
  "bus_ok (snd (read_ctrl c)) = tl (bus_ok c)"
  "chip (snd (read_ctrl c)) = chip c"
  "synced (snd (read_ctrl c)) = synced c"
  "failed (snd (read_ctrl c)) = failed c"
  "rtc (snd (read_ctrl c)) = rtc c"
  "alrm_1 (snd (read_ctrl c)) = alrm_1 c"
  "alrm_2 (snd (read_ctrl c)) = alrm_2 c"
  "ctrl (snd (read_ctrl c)) =
     (if next_ok (bus_ok c) then fetched (chip c) DS3231_CONTROL_ADDRESS ctrl_size (ctrl c) else ctrl c)"
  "stat (snd (read_ctrl c)) = stat c"
  by (simp_all add: read_ctrl_def read_bytes_def esp_log_def Let_def)

lemma write_ctrl_sel:
  "fst (write_ctrl c) = next_ok (bus_ok c)"
  "bus_log (snd (write_ctrl c)) =
     bus_log c @ [BusWrite DS3231_CONTROL_ADDRESS (map (ctrl c) [0..<ctrl_size]) (next_ok (bus_ok c))]"
  "bus_ok (snd (write_ctrl c)) = tl (bus_ok c)"
  "chip (snd (write_ctrl c)) =
     (if next_ok (bus_ok c) then stored (chip c) DS3231_CONTROL_ADDRESS ctrl_size (ctrl c) else chip c)"
  "synced (snd (write_ctrl c)) = synced c"
  "failed (snd (write_ctrl c)) = failed c"
  "rtc (snd (write_ctrl c)) = rtc c"
  "alrm_1 (snd (write_ctrl c)) = alrm_1 c"
  "alrm_2 (snd (write_ctrl c)) = alrm_2 c"
  "ctrl (snd (write_ctrl c)) = ctrl c"
  "stat (snd (write_ctrl c)) = stat c"
  by (simp_all add: write_ctrl_def write_bytes_def esp_log_def Let_def)

lemma read_stat_sel:
  "fst (read_stat c) = next_ok (bus_ok c)"
  "bus_log (snd (read_stat c)) = bus_log c @ [BusRead DS3231_STATUS_ADDRESS stat_size (next_ok (bus_ok c))]"
  "bus_ok (snd (read_stat c)) = tl (bus_ok c)"
  "chip (snd (read_stat c)) = chip c"
  "synced (snd (read_stat c)) = synced c"
  "failed (snd (read_stat c)) = failed c"
  "rtc (snd (read_stat c)) = rtc c"
  "alrm_1 (snd (read_stat c)) = alrm_1 c"
  "alrm_2 (snd (read_stat c)) = alrm_2 c"
  "ctrl (snd (read_stat c)) = ctrl c"
  "stat (snd (read_stat c)) =
     (if next_ok (bus_ok c) then fetched (chip c) DS3231_STATUS_ADDRESS stat_size (stat c) else stat c)"
  by (simp_all add: read_stat_def read_bytes_def esp_log_def Let_def)

lemma write_stat_sel:
  "fst (write_stat c) = next_ok (bus_ok c)"
  "bus_log (snd (write_stat c)) =
     bus_log c @ [BusWrite DS3231_STATUS_ADDRESS (map (stat c) [0..<stat_size]) (next_ok (bus_ok c))]"
  "bus_ok (snd (write_stat c)) = tl (bus_ok c)"
  "chip (snd (write_stat c)) =
     (if next_ok (bus_ok c) then stored (chip c) DS3231_STATUS_ADDRESS stat_size (stat c) else chip c)"
  "synced (snd (write_stat c)) = synced c"
  "failed (snd (write_stat c)) = failed c"
  "rtc (snd (write_stat c)) = rtc c"
  "alrm_1 (snd (write_stat c)) = alrm_1 c"
  "alrm_2 (snd (write_stat c)) = alrm_2 c"
  "ctrl (snd (write_stat c)) = ctrl c"
  "stat (snd (write_stat c)) = stat c"
  by (simp_all add: write_stat_def write_bytes_def esp_log_def Let_def)

lemmas access_sel = read_rtc_sel write_rtc_sel read_alrm_1_sel write_alrm_1_sel
  read_alrm_2_sel write_alrm_2_sel read_ctrl_sel write_ctrl_sel read_stat_sel write_stat_sel

text \<open>The instance after a status read, in full.\<close>

lemma read_stat_eq:
  "read_stat c =
     (next_ok (bus_ok c),
      c\<lparr>stat := (if next_ok (bus_ok c)
                  then fetched (chip c) DS3231_STATUS_ADDRESS stat_size (stat c) else stat c),
        bus_ok := tl (bus_ok c),
        bus_log := bus_log c @ [BusRead DS3231_STATUS_ADDRESS stat_size (next_ok (bus_ok c))],
        logs := logs c @
          [if next_ok (bus_ok c) then (LOGD, ''Read  A1:%s A2:%s BSY:%s 32K:%s OSC:%s'')
           else (LOGE, ''Can't read I2C data.'')]\<rparr>)"
  by (simp add: access_defs)

section \<open>Reading the time\<close>

text \<open>
  C5. For every state of the status register in which the oscillator-stopped flag is set,
  \<^verbatim>\<open>read_time\<close> never hands an epoch to the host clock. Whatever the bus does, the status
  read is the only transaction and the chip is left alone; when that read succeeds, the
  instance afterwards is the one before with the status image refreshed by the read, the
  read recorded with its debug line, and one warning logged: nothing else changes.
\<close>

theorem read_time_oscillator_stopped:
  "flag_get stat_osc_stop (fetched (chip c) DS3231_STATUS_ADDRESS stat_size (stat c)) \<Longrightarrow>
     synced (read_time recalc_timestamp_utc is_valid c) = synced c \<and>
     issued c (read_time recalc_timestamp_utc is_valid c) =
       [BusRead DS3231_STATUS_ADDRESS stat_size (next_ok (bus_ok c))] \<and>
     chip (read_time recalc_timestamp_utc is_valid c) = chip c \<and>
     (next_ok (bus_ok c) \<longrightarrow>
        read_time recalc_timestamp_utc is_valid c =
          c\<lparr>stat := fetched (chip c) DS3231_STATUS_ADDRESS stat_size (stat c),
            bus_ok := tl (bus_ok c),
            bus_log := bus_log c @ [BusRead DS3231_STATUS_ADDRESS stat_size True],
            logs := logs c @ [(LOGD, ''Read  A1:%s A2:%s BSY:%s 32K:%s OSC:%s''),
                              (LOGW, ''RTC halted, not syncing to system clock.'')]\<rparr>)"
  by (simp add: read_time_def read_stat_eq esp_log_def issued_def)

text \<open>A chip whose status register reads 0x80 (only the oscillator-stopped flag), with
  a host whose validity check accepts every time.\<close>

theorem read_time_oscillator_stopped_witness:
  "next_ok (bus_ok (blank\<lparr>chip := (\<lambda>a. if a = 0x0F then 0x80 else 0)\<rparr>)) \<and>
   flag_get stat_osc_stop
     (fetched (chip (blank\<lparr>chip := (\<lambda>a. if a = 0x0F then 0x80 else 0)\<rparr>))
        DS3231_STATUS_ADDRESS stat_size
        (stat (blank\<lparr>chip := (\<lambda>a. if a = 0x0F then 0x80 else 0)\<rparr>))) \<and>
   synced (read_time (\<lambda>t. t) (\<lambda>t. True)
             (blank\<lparr>chip := (\<lambda>a. if a = 0x0F then 0x80 else 0)\<rparr>)) = [] \<and>
   bus_log (read_time (\<lambda>t. t) (\<lambda>t. True)
             (blank\<lparr>chip := (\<lambda>a. if a = 0x0F then 0x80 else 0)\<rparr>)) = [BusRead 0x0F 1 True] \<and>
   logs (read_time (\<lambda>t. t) (\<lambda>t. True)
             (blank\<lparr>chip := (\<lambda>a. if a = 0x0F then 0x80 else 0)\<rparr>)) =
     [(LOGD, ''Read  A1:%s A2:%s BSY:%s 32K:%s OSC:%s''),
      (LOGW, ''RTC halted, not syncing to system clock.'')]"
  using read_time_oscillator_stopped [of "blank\<lparr>chip := (\<lambda>a. if a = 0x0F then 0x80 else 0)\<rparr>"
      "\<lambda>t. t" "\<lambda>t. True"]
  by (simp add: blank_def stat_flag_get fetched_def DS3231_STATUS_ADDRESS_def stat_size_def
      next_ok_def issued_def)

text \<open>
  C6. Whenever the calendar time decoded from the time registers does not validate,
  \<^verbatim>\<open>read_time\<close> hands nothing to the host clock; and the host clock is given an epoch only
  when the decoded time validates, the epoch then being that of the decoded time. The
  host's recomputation and validity check are arbitrary.
\<close>

theorem read_time_invalid_decoded_time:
  "(\<not> is_valid (recalc_timestamp_utc
        (rtc_decode (fetched (chip c) DS3231_RTC_ADDRESS rtc_size (rtc c)))) \<longrightarrow>
      synced (read_time recalc_timestamp_utc is_valid c) = synced c) \<and>
   (synced (read_time recalc_timestamp_utc is_valid c) \<noteq> synced c \<longrightarrow>
      is_valid (recalc_timestamp_utc
        (rtc_decode (fetched (chip c) DS3231_RTC_ADDRESS rtc_size (rtc c)))) \<and>
      synced (read_time recalc_timestamp_utc is_valid c) =
        synced c @ [timestamp (recalc_timestamp_utc
           (rtc_decode (fetched (chip c) DS3231_RTC_ADDRESS rtc_size (rtc c))))])"
  by (simp add: read_time_def access_defs synchronize_epoch_def split: prod.splits)

text \<open>Time registers that are all zero decode to month 0 of day 0, which a check of the
  month's and the day's range rejects: nothing reaches the host clock. With day and month
  registers at 0x01 the decoded time is 1 January 2000, the check accepts it, and the
  host clock is given the epoch the host's recomputation produced.\<close>

theorem read_time_invalid_decoded_time_witness:
  "\<not> (\<lambda>t. 1 \<le> month t \<and> month t \<le> 12 \<and> 1 \<le> day_of_month t \<and> day_of_month t \<le> 31)
       ((\<lambda>t. t\<lparr>timestamp := 946684800\<rparr>)
          (rtc_decode (fetched (chip blank) DS3231_RTC_ADDRESS rtc_size (rtc blank)))) \<and>
   synced (read_time (\<lambda>t. t\<lparr>timestamp := 946684800\<rparr>)
      (\<lambda>t. 1 \<le> month t \<and> month t \<le> 12 \<and> 1 \<le> day_of_month t \<and> day_of_month t \<le> 31)
      blank) = [] \<and>
   bus_log (read_time (\<lambda>t. t\<lparr>timestamp := 946684800\<rparr>)
      (\<lambda>t. 1 \<le> month t \<and> month t \<le> 12 \<and> 1 \<le> day_of_month t \<and> day_of_month t \<le> 31)
      blank) = [BusRead 0x0F 1 True, BusRead 0x00 7 True] \<and>
   synced (read_time (\<lambda>t. t\<lparr>timestamp := 946684800\<rparr>)
      (\<lambda>t. 1 \<le> month t \<and> month t \<le> 12 \<and> 1 \<le> day_of_month t \<and> day_of_month t \<le> 31)
      (blank\<lparr>chip := (\<lambda>a. if a = 0x04 \<or> a = 0x05 then 0x01 else 0)\<rparr>)) = [946684800]"
  using read_time_invalid_decoded_time [of
      "\<lambda>t. 1 \<le> month t \<and> month t \<le> 12 \<and> 1 \<le> day_of_month t \<and> day_of_month t \<le> 31"
      "\<lambda>t. t\<lparr>timestamp := 946684800\<rparr>" blank]
    read_time_invalid_decoded_time [of
      "\<lambda>t. 1 \<le> month t \<and> month t \<le> 12 \<and> 1 \<le> day_of_month t \<and> day_of_month t \<le> 31"
      "\<lambda>t. t\<lparr>timestamp := 946684800\<rparr>"
      "blank\<lparr>chip := (\<lambda>a. if a = 0x04 \<or> a = 0x05 then 0x01 else 0)\<rparr>"]
  by (simp add: blank_def rtc_decode_def reg_get_def rtc_fields DS3231_RTC_ADDRESS_def
      fetched_def rtc_size_def read_time_def access_defs next_ok_def stat_flag_get
      synchronize_epoch_def DS3231_STATUS_ADDRESS_def stat_size_def)

section \<open>Acknowledging an alarm\<close>

text \<open>
  C8. For every alarm number and every state, \<^verbatim>\<open>reset_alarm\<close> issues exactly one write, of
  the one status byte at the status address, also when the alarm's active flag was clear
  already. When the status read succeeds, the byte written, which is the status image
  afterwards, is the byte read with the active flag of the given alarm cleared (bit 0 for
  alarm 1, bit 1 for alarm 2) and every other bit as read.
\<close>

theorem reset_alarm_status_write:
  "(\<exists>b ok. filter is_write (issued c (reset_alarm alarm_number c)) =
       [BusWrite DS3231_STATUS_ADDRESS [b] ok]) \<and>
   (next_ok (bus_ok c) \<longrightarrow>
      (\<exists>ok. filter is_write (issued c (reset_alarm alarm_number c)) =
         [BusWrite DS3231_STATUS_ADDRESS
            [chip c DS3231_STATUS_ADDRESS AND
               NOT (case alarm_number of ALARM_1 \<Rightarrow> 0x01 | ALARM_2 \<Rightarrow> 0x02)] ok]) \<and>
      stat (reset_alarm alarm_number c) 0 =
        chip c DS3231_STATUS_ADDRESS AND
          NOT (case alarm_number of ALARM_1 \<Rightarrow> 0x01 | ALARM_2 \<Rightarrow> 0x02))"
proof (cases alarm_number)
  case ALARM_1
  show ?thesis
    using clear_bit_0 [of "chip c DS3231_STATUS_ADDRESS"]
    by (auto simp add: ALARM_1 reset_alarm_def Let_def access_sel issued_def
        stat_flag_get stat_flag_set fetched_0 stat_size_def split: if_splits)
next
  case ALARM_2
  show ?thesis
    using clear_bit_1 [of "chip c DS3231_STATUS_ADDRESS"]
    by (auto simp add: ALARM_2 reset_alarm_def Let_def access_sel issued_def
        stat_flag_get stat_flag_set fetched_0 stat_size_def split: if_splits)
qed

text \<open>With the status register at 0x88 (oscillator stopped, 32 kHz output enabled, no alarm
  active), acknowledging alarm 2 still writes, and writes 0x88 back.\<close>

theorem reset_alarm_status_write_witness:
  "next_ok (bus_ok (blank\<lparr>chip := (\<lambda>a. if a = 0x0F then 0x88 else 0)\<rparr>)) \<and>
   bus_log (reset_alarm ALARM_2 (blank\<lparr>chip := (\<lambda>a. if a = 0x0F then 0x88 else 0)\<rparr>)) =
     [BusRead 0x0F 1 True, BusWrite 0x0F [0x88] True]"
  using reset_alarm_status_write [of "blank\<lparr>chip := (\<lambda>a. if a = 0x0F then 0x88 else 0)\<rparr>" ALARM_2]
  by (simp add: blank_def reset_alarm_def Let_def access_sel next_ok_def
      stat_flag_get stat_flag_set fetched_def DS3231_STATUS_ADDRESS_def stat_size_def)

section \<open>Setting an alarm\<close>

lemmas alrm_1_fields = alrm_1_second_def alrm_1_second_10_def alrm_1_m1_def alrm_1_minute_def
  alrm_1_minute_10_def alrm_1_m2_def alrm_1_hour_def alrm_1_hour_10_def alrm_1_m3_def
  alrm_1_day_def alrm_1_day_10_def alrm_1_day_mode_def alrm_1_m4_def

lemmas alrm_2_fields = alrm_2_minute_def alrm_2_minute_10_def alrm_2_m2_def alrm_2_hour_def
  alrm_2_hour_10_def alrm_2_m3_def alrm_2_day_def alrm_2_day_10_def alrm_2_day_mode_def
  alrm_2_m4_def

text \<open>
  C9. Every call of \<^verbatim>\<open>set_alarm\<close> should write the targeted alarm's register group
  unconditionally and the control register only when the targeted interrupt-enable bit
  differs from the value read, changing that bit alone. The writes of the source, for
  every state and every outcome of the bus: first one write of the targeted alarm's image,
  always; then a write of the control register exactly when the targeted alarm's
  interrupt-enable bit (bit 0 for alarm 1, bit 1 for alarm 2) of the control byte in hand
  differs from the requested value, the byte written being the byte in hand with that one
  bit inverted. The control byte in hand is the chip's when the control read succeeded,
  the stale image's otherwise. The alarm write goes to \<^verbatim>\<open>DS3231_ALARM_1_ADDRESS\<close> for both
  alarms: for alarm 2 the three image bytes land on the first three alarm-1 registers,
  and no transaction of \<^verbatim>\<open>set_alarm\<close> ever goes to \<^verbatim>\<open>DS3231_ALARM_2_ADDRESS\<close>, so the
  alarm-2 register group is never written.
\<close>

theorem set_alarm_writes:
  "filter is_write (issued c (set_alarm alarm_type sec mnt hr dy c)) =
     (if alarm_type AND DS3231_ALARM_TYPE_ALARM_NUMBER = 0
      then BusWrite DS3231_ALARM_1_ADDRESS
             (map (alrm_1 (set_alarm alarm_type sec mnt hr dy c)) [0..<alrm_1_size])
             (next_ok (tl (tl (bus_ok c)))) #
           (if bit (if next_ok (bus_ok c) then chip c DS3231_CONTROL_ADDRESS else ctrl c 0) 0 =
               (alarm_type AND DS3231_ALARM_TYPE_INTERUPT \<noteq> 0)
            then []
            else [BusWrite DS3231_CONTROL_ADDRESS
                    [(if next_ok (bus_ok c) then chip c DS3231_CONTROL_ADDRESS else ctrl c 0)
                       XOR 0x01]
                    (next_ok (tl (tl (tl (bus_ok c)))))])
      else BusWrite DS3231_ALARM_1_ADDRESS
             (map (alrm_2 (set_alarm alarm_type sec mnt hr dy c)) [0..<alrm_2_size])
             (next_ok (tl (tl (bus_ok c)))) #
           (if bit (if next_ok (bus_ok c) then chip c DS3231_CONTROL_ADDRESS else ctrl c 0) 1 =
               (alarm_type AND DS3231_ALARM_TYPE_INTERUPT \<noteq> 0)
            then []
            else [BusWrite DS3231_CONTROL_ADDRESS
                    [(if next_ok (bus_ok c) then chip c DS3231_CONTROL_ADDRESS else ctrl c 0)
                       XOR 0x02]
                    (next_ok (tl (tl (tl (bus_ok c)))))])) \<and>
   DS3231_ALARM_2_ADDRESS \<notin>
     event_address ` set (issued c (set_alarm alarm_type sec mnt hr dy c))"
proof (rule conjI)
  show "filter is_write (issued c (set_alarm alarm_type sec mnt hr dy c)) =
     (if alarm_type AND DS3231_ALARM_TYPE_ALARM_NUMBER = 0
      then BusWrite DS3231_ALARM_1_ADDRESS
             (map (alrm_1 (set_alarm alarm_type sec mnt hr dy c)) [0..<alrm_1_size])
             (next_ok (tl (tl (bus_ok c)))) #
           (if bit (if next_ok (bus_ok c) then chip c DS3231_CONTROL_ADDRESS else ctrl c 0) 0 =
               (alarm_type AND DS3231_ALARM_TYPE_INTERUPT \<noteq> 0)
            then []
            else [BusWrite DS3231_CONTROL_ADDRESS
                    [(if next_ok (bus_ok c) then chip c DS3231_CONTROL_ADDRESS else ctrl c 0)
                       XOR 0x01]
                    (next_ok (tl (tl (tl (bus_ok c)))))])
      else BusWrite DS3231_ALARM_1_ADDRESS
             (map (alrm_2 (set_alarm alarm_type sec mnt hr dy c)) [0..<alrm_2_size])
             (next_ok (tl (tl (bus_ok c)))) #
           (if bit (if next_ok (bus_ok c) then chip c DS3231_CONTROL_ADDRESS else ctrl c 0) 1 =
               (alarm_type AND DS3231_ALARM_TYPE_INTERUPT \<noteq> 0)
            then []
            else [BusWrite DS3231_CONTROL_ADDRESS
                    [(if next_ok (bus_ok c) then chip c DS3231_CONTROL_ADDRESS else ctrl c 0)
                       XOR 0x02]
                    (next_ok (tl (tl (tl (bus_ok c)))))]))"
    by (simp add: set_alarm_def Let_def access_sel issued_def ctrl_flag_get ctrl_flag_set
        fetched_0 ctrl_size_def)
next
  show "DS3231_ALARM_2_ADDRESS \<notin>
     event_address ` set (issued c (set_alarm alarm_type sec mnt hr dy c))"
    by (simp add: set_alarm_def Let_def access_sel issued_def DS3231_ALARM_1_ADDRESS_def
        DS3231_ALARM_2_ADDRESS_def DS3231_CONTROL_ADDRESS_def)
qed

text \<open>With the control register at 0x1C and a bus that works: alarm 1 with the interrupt
  requested (type 0x4E) writes four alarm bytes at 0x07 and then control 0x1D; alarm 2
  without the interrupt (type 0x8E) writes its three bytes at 0x07 as well, nothing at
  0x0B, and leaves the control register alone.\<close>

theorem set_alarm_writes_witness:
  "bus_log (set_alarm 0x4E 30 15 8 1 (blank\<lparr>chip := (\<lambda>a. if a = 0x0E then 0x1C else 0)\<rparr>)) =
     [BusRead 0x0E 1 True, BusRead 0x07 4 True, BusWrite 0x07 [0x30, 0x95, 0x88, 0x81] True,
      BusWrite 0x0E [0x1D] True] \<and>
   (0x8E :: 32 word) AND DS3231_ALARM_TYPE_ALARM_NUMBER \<noteq> 0 \<and>
   bus_log (set_alarm 0x8E 30 15 8 1 (blank\<lparr>chip := (\<lambda>a. if a = 0x0E then 0x1C else 0)\<rparr>)) =
     [BusRead 0x0E 1 True, BusRead 0x07 3 True, BusWrite 0x07 [0x95, 0x88, 0x81] True] \<and>
   DS3231_ALARM_2_ADDRESS = 0x0B"
  using set_alarm_writes [of "blank\<lparr>chip := (\<lambda>a. if a = 0x0E then 0x1C else 0)\<rparr>"
      "0x4E" 30 15 8 1]
    set_alarm_writes [of "blank\<lparr>chip := (\<lambda>a. if a = 0x0E then 0x1C else 0)\<rparr>"
      "0x8E" 30 15 8 1]
  by (simp add: blank_def set_alarm_def Let_def access_sel next_ok_def issued_def
      fetched_def stored_def alrm_1_encode_def alrm_2_encode_def alrm_1_fields alrm_2_fields
      ctrl_alrm_1_int_def ctrl_alrm_2_int_def
      flag_set_def flag_get_def reg_set_def reg_get_def mask_eq_exp_minus_1
      DS3231_ALARM_TYPE_M1_def DS3231_ALARM_TYPE_M2_def DS3231_ALARM_TYPE_M3_def
      DS3231_ALARM_TYPE_M4_def DS3231_ALARM_TYPE_DAY_MODE_def DS3231_ALARM_TYPE_INTERUPT_def
      DS3231_ALARM_TYPE_ALARM_NUMBER_def DS3231_ALARM_1_ADDRESS_def DS3231_ALARM_2_ADDRESS_def
      DS3231_CONTROL_ADDRESS_def alrm_1_size_def alrm_2_size_def ctrl_size_def
      map_upt_3 map_upt_4)

lemma flag_get_set_same:
  "p < 8 \<Longrightarrow> flag_get (Field b p 1) (flag_set (Field b p 1) v r) = v"
  by (simp add: flag_get_def flag_set_def reg_get_set_same)

lemma alrm_1_encode_get:
  "reg_get alrm_1_second (alrm_1_encode alarm_type sec mnt hr dy r) = take_bit 4 (sec mod 10)"
  "reg_get alrm_1_second_10 (alrm_1_encode alarm_type sec mnt hr dy r) = take_bit 3 (sec div 10)"
  "flag_get alrm_1_m1 (alrm_1_encode alarm_type sec mnt hr dy r) =
     (alarm_type AND DS3231_ALARM_TYPE_M1 \<noteq> 0)"
  "reg_get alrm_1_minute (alrm_1_encode alarm_type sec mnt hr dy r) = take_bit 4 (mnt mod 10)"
  "reg_get alrm_1_minute_10 (alrm_1_encode alarm_type sec mnt hr dy r) = take_bit 3 (mnt div 10)"
  "flag_get alrm_1_m2 (alrm_1_encode alarm_type sec mnt hr dy r) =
     (alarm_type AND DS3231_ALARM_TYPE_M2 \<noteq> 0)"
  "reg_get alrm_1_hour (alrm_1_encode alarm_type sec mnt hr dy r) = take_bit 4 (hr mod 10)"
  "reg_get alrm_1_hour_10 (alrm_1_encode alarm_type sec mnt hr dy r) = take_bit 2 (hr div 10)"
  "flag_get alrm_1_m3 (alrm_1_encode alarm_type sec mnt hr dy r) =
     (alarm_type AND DS3231_ALARM_TYPE_M3 \<noteq> 0)"
  "reg_get alrm_1_day (alrm_1_encode alarm_type sec mnt hr dy r) = take_bit 4 (dy mod 10)"
  "reg_get alrm_1_day_10 (alrm_1_encode alarm_type sec mnt hr dy r) = take_bit 2 (dy div 10)"
  "flag_get alrm_1_day_mode (alrm_1_encode alarm_type sec mnt hr dy r) =
     (alarm_type AND DS3231_ALARM_TYPE_DAY_MODE \<noteq> 0)"
  "flag_get alrm_1_m4 (alrm_1_encode alarm_type sec mnt hr dy r) =
     (alarm_type AND DS3231_ALARM_TYPE_M4 \<noteq> 0)"
  by (simp_all add: alrm_1_encode_def Let_def alrm_1_fields flag_get_def flag_set_def reg_get_set)

lemma fetched_stored_same: "fetched (stored regs a len img) a len img = img"
  by (auto simp add: fetched_def stored_def fun_eq_iff)

lemma fetched_stored_other:
  "a + len \<le> a' \<or> a' + len' \<le> a \<Longrightarrow>
     fetched (stored regs a' len' img') a len buf = fetched regs a len buf"
  by (auto simp add: fetched_def stored_def fun_eq_iff)

lemma fetched_idem: "fetched regs a len (fetched regs a len buf) = fetched regs a len buf"
  by (auto simp add: fetched_def fun_eq_iff)

lemma xor_1_bit_0: "bit (x XOR 1 :: 8 word) 0 = (\<not> bit x 0)"
  by (simp add: bit_0 even_xor_iff)

lemma alrm_1_decode_example:
  "alrm_1_decode (alrm_1_encode
      (DS3231_ALARM_TYPE_M2 OR DS3231_ALARM_TYPE_M3 OR DS3231_ALARM_TYPE_M4 OR
       DS3231_ALARM_TYPE_INTERUPT) 30 15 8 1 r) =
     (30, 15, 8, 1, False, True, True, True, False)"
  by (simp add: alrm_1_decode_def alrm_1_encode_get DS3231_ALARM_TYPE_M1_def
      DS3231_ALARM_TYPE_M2_def DS3231_ALARM_TYPE_M3_def DS3231_ALARM_TYPE_M4_def
      DS3231_ALARM_TYPE_INTERUPT_def DS3231_ALARM_TYPE_DAY_MODE_def)

lemma example_alarm_type:
  "(DS3231_ALARM_TYPE_M2 OR DS3231_ALARM_TYPE_M3 OR DS3231_ALARM_TYPE_M4 OR
       DS3231_ALARM_TYPE_INTERUPT) AND DS3231_ALARM_TYPE_ALARM_NUMBER = 0"
  "(DS3231_ALARM_TYPE_M2 OR DS3231_ALARM_TYPE_M3 OR DS3231_ALARM_TYPE_M4 OR
       DS3231_ALARM_TYPE_INTERUPT) AND DS3231_ALARM_TYPE_INTERUPT \<noteq> 0"
  by (simp_all add: DS3231_ALARM_TYPE_M2_def DS3231_ALARM_TYPE_M3_def DS3231_ALARM_TYPE_M4_def
      DS3231_ALARM_TYPE_INTERUPT_def DS3231_ALARM_TYPE_ALARM_NUMBER_def)

text \<open>
  C10. \<^verbatim>\<open>set_alarm\<close> for alarm 1 with second 30, minute 15, hour 8, day 1, the match bits
  M2, M3 and M4, day-mode date and the interrupt enabled: the alarm-1 image, which is what
  the alarm write carries, reads back as exactly second 30, minute 15, hour 8, day 1, M1
  clear, M2, M3 and M4 set, day-mode clear (date), and the control image has the alarm-1
  interrupt-enable bit set. On a bus that works, the chip's alarm-1 and control registers
  hold these images afterwards.
\<close>

theorem set_alarm_1_example:
  fixes c :: DS3231Component
  defines "c' \<equiv> set_alarm (DS3231_ALARM_TYPE_M2 OR DS3231_ALARM_TYPE_M3 OR
                   DS3231_ALARM_TYPE_M4 OR DS3231_ALARM_TYPE_INTERUPT) 30 15 8 1 c"
  shows "alrm_1_decode (alrm_1 c') = (30, 15, 8, 1, False, True, True, True, False) \<and>
    flag_get ctrl_alrm_1_int (ctrl c') \<and>
    (\<exists>ok. BusWrite DS3231_ALARM_1_ADDRESS (map (alrm_1 c') [0..<alrm_1_size]) ok
             \<in> set (issued c c')) \<and>
    (bus_ok c = [] \<longrightarrow>
       fetched (chip c') DS3231_ALARM_1_ADDRESS alrm_1_size (alrm_1 c') = alrm_1 c' \<and>
       fetched (chip c') DS3231_CONTROL_ADDRESS ctrl_size (ctrl c') = ctrl c')"
proof -
  have 1: "alrm_1_decode (alrm_1 c') = (30, 15, 8, 1, False, True, True, True, False)"
    unfolding c'_def
    by (simp add: set_alarm_def Let_def example_alarm_type access_sel alrm_1_decode_example)
  have 2: "flag_get ctrl_alrm_1_int (ctrl c')"
    unfolding c'_def
    by (simp add: set_alarm_def Let_def example_alarm_type access_sel ctrl_flag_get
        ctrl_flag_set xor_1_bit_0)
  have 3: "\<exists>ok. BusWrite DS3231_ALARM_1_ADDRESS (map (alrm_1 c') [0..<alrm_1_size]) ok
             \<in> set (issued c c')"
    unfolding c'_def
    by (auto simp add: set_alarm_def Let_def example_alarm_type access_sel issued_def)
  have 4: "fetched (chip c') DS3231_ALARM_1_ADDRESS alrm_1_size (alrm_1 c') = alrm_1 c' \<and>
       fetched (chip c') DS3231_CONTROL_ADDRESS ctrl_size (ctrl c') = ctrl c'"
    if "bus_ok c = []"
    unfolding c'_def using that
    by (simp add: set_alarm_def Let_def example_alarm_type access_sel next_ok_def
        fetched_stored_same fetched_stored_other fetched_idem DS3231_ALARM_1_ADDRESS_def
        DS3231_CONTROL_ADDRESS_def alrm_1_size_def ctrl_size_def)
  from 1 2 3 4 show ?thesis by simp
qed

text \<open>On the blank instance the chip's registers 0x07 to 0x0A and 0x0E end as 0x30, 0x95,
  0x88, 0x81 and 0x01.\<close>

theorem set_alarm_1_example_witness:
  "bus_ok blank = [] \<and>
   map (chip (set_alarm 0x4E 30 15 8 1 blank)) [0x07, 0x08, 0x09, 0x0A, 0x0E] =
     [0x30, 0x95, 0x88, 0x81, 0x01] \<and>
   alrm_1_decode (fetched (chip (set_alarm 0x4E 30 15 8 1 blank)) 0x07 4 (\<lambda>i. 0)) =
     (30, 15, 8, 1, False, True, True, True, False)"
  using set_alarm_1_example [of blank]
  by (simp add: blank_def set_alarm_def Let_def access_sel next_ok_def
      fetched_def stored_def alrm_1_encode_def alrm_1_fields alrm_1_decode_def
      ctrl_alrm_1_int_def flag_set_def flag_get_def reg_set_def reg_get_def mask_eq_exp_minus_1
      DS3231_ALARM_TYPE_M1_def DS3231_ALARM_TYPE_M2_def DS3231_ALARM_TYPE_M3_def
      DS3231_ALARM_TYPE_M4_def DS3231_ALARM_TYPE_DAY_MODE_def DS3231_ALARM_TYPE_INTERUPT_def
      DS3231_ALARM_TYPE_ALARM_NUMBER_def DS3231_ALARM_1_ADDRESS_def DS3231_CONTROL_ADDRESS_def
      alrm_1_size_def ctrl_size_def)

section \<open>Square-wave and interrupt mode\<close>

lemma ctrl_rs_keeps_int_ctrl:
  "flag_get ctrl_int_ctrl (reg_set ctrl_rs v r) = flag_get ctrl_int_ctrl r"
  by (simp add: flag_get_def ctrl_int_ctrl_def ctrl_rs_def reg_get_set)

lemma ctrl_int_ctrl_set: "flag_get ctrl_int_ctrl (flag_set ctrl_int_ctrl v r) = v"
  unfolding ctrl_int_ctrl_def by (rule flag_get_set_same) simp

text \<open>One call of \<^verbatim>\<open>set_sqw_mode\<close> with the mode \<^verbatim>\<open>ALARM_INTERUPT\<close> on a bus that works: it
  always writes the control register, with the interrupt-select bit inverted.\<close>

lemma set_sqw_mode_alarm_interupt_once:
  assumes "bus_ok c = []"
  shows "bus_ok (set_sqw_mode ai ai c) = []"
    and "flag_get ctrl_int_ctrl (ctrl (set_sqw_mode ai ai c)) =
           (\<not> flag_get ctrl_int_ctrl (fetched (chip c) DS3231_CONTROL_ADDRESS ctrl_size (ctrl c)))"
    and "fetched (chip (set_sqw_mode ai ai c)) DS3231_CONTROL_ADDRESS ctrl_size
           (ctrl (set_sqw_mode ai ai c)) = ctrl (set_sqw_mode ai ai c)"
    and "issued c (set_sqw_mode ai ai c) =
           [BusRead DS3231_CONTROL_ADDRESS ctrl_size True,
            BusWrite DS3231_CONTROL_ADDRESS [ctrl (set_sqw_mode ai ai c) 0] True]"
  using assms
  by (simp_all add: set_sqw_mode_def Let_def access_sel next_ok_def issued_def
      ctrl_rs_keeps_int_ctrl ctrl_int_ctrl_set fetched_stored_same ctrl_size_def)

text \<open>
  C2. Calling \<^verbatim>\<open>set_sqw_mode\<close> twice in a row with the same mode should issue no control
  write the second time. With the mode \<^verbatim>\<open>ALARM_INTERUPT\<close> the source does otherwise, for
  every initial state of the control register and every value of the enumerator: on a bus
  that works each of the two calls writes the control register once, and each inverts the
  interrupt-select bit. The second call finds the bit set, so the first condition fails,
  the second (\<^verbatim>\<open>int_ctrl || rs != mode\<close>) holds, and the bit is cleared again.
\<close>

theorem set_sqw_mode_alarm_interupt_twice:
  assumes "bus_ok c = []"
  shows "filter is_write (issued c (set_sqw_mode ai ai c)) =
      [BusWrite DS3231_CONTROL_ADDRESS [ctrl (set_sqw_mode ai ai c) 0] True] \<and>
    filter is_write (issued (set_sqw_mode ai ai c) (set_sqw_mode ai ai (set_sqw_mode ai ai c))) =
      [BusWrite DS3231_CONTROL_ADDRESS
         [ctrl (set_sqw_mode ai ai (set_sqw_mode ai ai c)) 0] True] \<and>
    flag_get ctrl_int_ctrl (ctrl (set_sqw_mode ai ai c)) =
      (\<not> flag_get ctrl_int_ctrl (fetched (chip c) DS3231_CONTROL_ADDRESS ctrl_size (ctrl c))) \<and>
    flag_get ctrl_int_ctrl (ctrl (set_sqw_mode ai ai (set_sqw_mode ai ai c))) =
      flag_get ctrl_int_ctrl (fetched (chip c) DS3231_CONTROL_ADDRESS ctrl_size (ctrl c))"
proof -
  have 1: "bus_ok (set_sqw_mode ai ai c) = []"
    using assms by (rule set_sqw_mode_alarm_interupt_once)
  show ?thesis
    by (simp add: set_sqw_mode_alarm_interupt_once [OF assms]
        set_sqw_mode_alarm_interupt_once [OF 1])
qed

text \<open>From a control register of 0x00, with 4 standing for the enumerator's value: the
  first call writes 0x04 and the second writes 0x00.\<close>

theorem set_sqw_mode_alarm_interupt_twice_witness:
  "bus_ok blank = [] \<and>
   bus_log (set_sqw_mode 4 4 (set_sqw_mode 4 4 blank)) =
     [BusRead 0x0E 1 True, BusWrite 0x0E [0x04] True,
      BusRead 0x0E 1 True, BusWrite 0x0E [0x00] True]"
  using set_sqw_mode_alarm_interupt_twice [of blank 4]
  by (simp add: blank_def set_sqw_mode_def Let_def access_sel next_ok_def
      fetched_def stored_def ctrl_int_ctrl_def ctrl_rs_def
      flag_set_def flag_get_def reg_set_def reg_get_def mask_eq_exp_minus_1
      DS3231_CONTROL_ADDRESS_def ctrl_size_def)

text \<open>Called twice in a row with the same square-wave rate on a bus that works,
  \<^verbatim>\<open>set_sqw_mode\<close> writes nothing the second time: the rate is any mode other than
  \<^verbatim>\<open>ALARM_INTERUPT\<close> whose value fits the two-bit rate field.\<close>

lemma ctrl_rs_get_set:
  assumes "0 \<le> mode" "mode < 4"
  shows "uint (reg_get ctrl_rs (reg_set ctrl_rs (of_int mode) r)) = mode"
proof -
  have "reg_get ctrl_rs (reg_set ctrl_rs (of_int mode) r) = take_bit 2 (of_int mode)"
    unfolding ctrl_rs_def by (rule reg_get_set_same) simp
  then show ?thesis
    using assms by (simp add: unsigned_take_bit_eq uint_word_of_int) (simp add: take_bit_eq_mod)
qed

lemma set_sqw_mode_rate_twice:
  assumes "bus_ok c = []" "mode \<noteq> ai" "0 \<le> mode" "mode < 4"
  shows "filter is_write (issued (set_sqw_mode ai mode c)
           (set_sqw_mode ai mode (set_sqw_mode ai mode c))) = []"
  using assms
  by (simp add: set_sqw_mode_def Let_def access_sel next_ok_def issued_def
      ctrl_rs_keeps_int_ctrl ctrl_int_ctrl_set ctrl_rs_get_set fetched_stored_same fetched_idem)

section \<open>Failed reads\<close>

text \<open>
  C3. A failed group read should make the owning operation fail: the component marked
  failed in \<^verbatim>\<open>setup\<close>, the operation abandoned without writes elsewhere. \<^verbatim>\<open>write_time\<close>,
  \<^verbatim>\<open>reset_alarm\<close>, \<^verbatim>\<open>set_alarm\<close> and \<^verbatim>\<open>set_sqw_mode\<close> discard the result of their first read:
  when that read fails they carry on with the stale image and still write. With a valid
  host time \<^verbatim>\<open>write_time\<close> ends by writing the time registers; \<^verbatim>\<open>reset_alarm\<close> writes the
  status register; \<^verbatim>\<open>set_alarm\<close> reads and writes the alarm registers; \<^verbatim>\<open>set_sqw_mode\<close>
  writes the control register when the stale image has the interrupt-select bit set.
\<close>

theorem failed_read_still_writes:
  assumes "bus_ok c = False # oks" and "is_valid now"
  shows "(\<exists>es bs ok. issued c (write_time is_valid now c) =
            BusRead DS3231_STATUS_ADDRESS stat_size False # es @
            [BusWrite DS3231_RTC_ADDRESS bs ok]) \<and>
     (\<exists>b ok. issued c (reset_alarm alarm_number c) =
            [BusRead DS3231_STATUS_ADDRESS stat_size False,
             BusWrite DS3231_STATUS_ADDRESS [b] ok]) \<and>
     (\<exists>e a bs ok es. issued c (set_alarm alarm_type sec mnt hr dy c) =
            BusRead DS3231_CONTROL_ADDRESS ctrl_size False # e # BusWrite a bs ok # es) \<and>
     (flag_get ctrl_int_ctrl (ctrl c) \<longrightarrow>
        (\<exists>b ok. issued c (set_sqw_mode ai mode c) =
            [BusRead DS3231_CONTROL_ADDRESS ctrl_size False,
             BusWrite DS3231_CONTROL_ADDRESS [b] ok]))"
proof (intro conjI impI)
  show "\<exists>es bs ok. issued c (write_time is_valid now c) =
            BusRead DS3231_STATUS_ADDRESS stat_size False # es @
            [BusWrite DS3231_RTC_ADDRESS bs ok]"
    using assms
    by (simp add: write_time_def Let_def access_sel next_ok_def issued_def)
next
  show "\<exists>b ok. issued c (reset_alarm alarm_number c) =
            [BusRead DS3231_STATUS_ADDRESS stat_size False,
             BusWrite DS3231_STATUS_ADDRESS [b] ok]"
    using assms
    by (simp add: reset_alarm_def Let_def access_sel next_ok_def issued_def stat_size_def)
next
  show "\<exists>e a bs ok es. issued c (set_alarm alarm_type sec mnt hr dy c) =
            BusRead DS3231_CONTROL_ADDRESS ctrl_size False # e # BusWrite a bs ok # es"
    using assms
    by (simp add: set_alarm_def Let_def access_sel next_ok_def issued_def)
next
  assume "flag_get ctrl_int_ctrl (ctrl c)"
  then show "\<exists>b ok. issued c (set_sqw_mode ai mode c) =
            [BusRead DS3231_CONTROL_ADDRESS ctrl_size False,
             BusWrite DS3231_CONTROL_ADDRESS [b] ok]"
    using assms
    by (simp add: set_sqw_mode_def Let_def access_sel next_ok_def issued_def ctrl_size_def)
qed

text \<open>With the first transaction failing and all images zero, \<^verbatim>\<open>write_time\<close> at 23:07:59 on
  31 December 2026 writes the seven time bytes; \<^verbatim>\<open>reset_alarm\<close> over a stale status image
  of 0x01 writes 0x00; \<^verbatim>\<open>set_sqw_mode\<close> for rate 2 over a stale control image of 0x1C writes
  0x10 (4 stands for the value of \<^verbatim>\<open>ALARM_INTERUPT\<close>).\<close>

theorem failed_read_still_writes_witness:
  "bus_ok (blank\<lparr>bus_ok := [False]\<rparr>) = False # [] \<and> (\<lambda>t. 2019 \<le> year t)
       \<lparr>second = 59, minute = 7, hour = 23, day_of_week = 5, day_of_month = 31,
         day_of_year = 365, month = 12, year = 2026, timestamp = 0\<rparr> \<and>
   bus_log (write_time (\<lambda>t. 2019 \<le> year t)
       \<lparr>second = 59, minute = 7, hour = 23, day_of_week = 5, day_of_month = 31,
         day_of_year = 365, month = 12, year = 2026, timestamp = 0\<rparr>
       (blank\<lparr>bus_ok := [False]\<rparr>)) =
     [BusRead 0x0F 1 False, BusWrite 0x00 [0x59, 0x07, 0x23, 0x05, 0x31, 0x12, 0x26] True] \<and>
   bus_log (reset_alarm ALARM_1 (blank\<lparr>bus_ok := [False], stat := (\<lambda>i. 0x01)\<rparr>)) =
     [BusRead 0x0F 1 False, BusWrite 0x0F [0x00] True] \<and>
   flag_get ctrl_int_ctrl (ctrl (blank\<lparr>bus_ok := [False], ctrl := (\<lambda>i. 0x1C)\<rparr>)) \<and>
   bus_log (set_sqw_mode 4 2 (blank\<lparr>bus_ok := [False], ctrl := (\<lambda>i. 0x1C)\<rparr>)) =
     [BusRead 0x0E 1 False, BusWrite 0x0E [0x10] True]"
  using failed_read_still_writes [of "blank\<lparr>bus_ok := [False]\<rparr>" "[]" "\<lambda>t. 2019 \<le> year t"
       "\<lparr>second = 59, minute = 7, hour = 23, day_of_week = 5, day_of_month = 31,
         day_of_year = 365, month = 12, year = 2026, timestamp = 0\<rparr>"]
    failed_read_still_writes [of "blank\<lparr>bus_ok := [False], ctrl := (\<lambda>i. 0x1C)\<rparr>" "[]"
       "\<lambda>t. 2019 \<le> year t"
       "\<lparr>second = 59, minute = 7, hour = 23, day_of_week = 5, day_of_month = 31,
         day_of_year = 365, month = 12, year = 2026, timestamp = 0\<rparr>" ALARM_1 0 0 0 0 0 4 2]
  by (simp add: blank_def write_time_def reset_alarm_def set_sqw_mode_def Let_def access_sel
      next_ok_def stat_alrm_1_act_def stat_osc_stop_def rtc_encode_def rtc_fields reg_set_def
      reg_get_def flag_get_def flag_set_def ctrl_int_ctrl_def ctrl_rs_def mask_eq_exp_minus_1
      DS3231_STATUS_ADDRESS_def DS3231_RTC_ADDRESS_def DS3231_CONTROL_ADDRESS_def
      stat_size_def rtc_size_def ctrl_size_def map_upt_7
      signed_modulo_int_def signed_divide_int_def)

text \<open>The two operations that do check their reads. A failed read of any of the five
  groups during \<^verbatim>\<open>setup\<close> marks the component failed (the remaining groups are still
  read); a failed read in \<^verbatim>\<open>read_time\<close> ends it with nothing written and nothing handed
  to the host clock.\<close>

lemma setup_failed:
  "failed (setup_DS3231 c) =
     (failed c \<or> \<not> (next_ok (bus_ok c) \<and> next_ok (tl (bus_ok c)) \<and> next_ok (tl (tl (bus_ok c))) \<and>
            next_ok (tl (tl (tl (bus_ok c)))) \<and> next_ok (tl (tl (tl (tl (bus_ok c)))))))"
  by (simp add: setup_DS3231_def Let_def case_prod_beta mark_failed_def esp_log_def access_sel)

lemma read_time_failed_read:
  assumes "\<not> (next_ok (bus_ok c) \<and> next_ok (tl (bus_ok c)))"
  shows "synced (read_time recalc_timestamp_utc is_valid c) = synced c"
    and "filter is_write (issued c (read_time recalc_timestamp_utc is_valid c)) = []"
    and "chip (read_time recalc_timestamp_utc is_valid c) = chip c"
  using assms
  by (simp_all add: read_time_def Let_def case_prod_beta esp_log_def access_sel issued_def)

end
